theory Spec2Isabelle
  imports Main "HOL-Library.Sublist" "HOL-Library.Monad_Syntax" "HOL-Library.Log_Nat"
begin

section \<open>Strings of the C++ standard library\<close>

text \<open>
  A \<open>std::string\<close> is a list of bytes. An index that may be \<open>std::string::npos\<close>
  is a \<open>nat option\<close>, with \<open>None\<close> for \<open>npos\<close>. A call that may throw returns an
  option as well: \<open>None\<close> says that an exception escaped (the only one the code under
  study can meet is \<open>std::out_of_range\<close>, thrown by \<open>substr\<close>).
\<close>

type_synonym 'a throws = "'a option"

text \<open>\<open>s.find(c)\<close> on the whole string: the index of the first \<open>c\<close>.\<close>

fun index_of :: "char \<Rightarrow> string \<Rightarrow> nat option" where
  "index_of c [] = None"
| "index_of c (x # xs) = (if x = c then Some 0 else map_option Suc (index_of c xs))"

text \<open>\<open>s.find(c, pos)\<close>: the first \<open>c\<close> at or after \<open>pos\<close>.\<close>

definition find_ch :: "string \<Rightarrow> char \<Rightarrow> nat \<Rightarrow> nat option" where
  "find_ch s c pos = map_option (\<lambda>i. pos + i) (index_of c (drop pos s))"

text \<open>\<open>s.rfind(c)\<close>: the index of the last \<open>c\<close>.\<close>

definition rfind_ch :: "string \<Rightarrow> char \<Rightarrow> nat option" where
  "rfind_ch s c = map_option (\<lambda>i. length s - 1 - i) (index_of c (rev s))"

text \<open>\<open>s.find(needle)\<close>: the index where the first occurrence of \<open>needle\<close> starts.\<close>

fun find_str :: "string \<Rightarrow> string \<Rightarrow> nat option" where
  "find_str [] needle = (if needle = [] then Some 0 else None)"
| "find_str (c # cs) needle =
     (if prefix needle (c # cs) then Some 0 else map_option Suc (find_str cs needle))"

text \<open>\<open>s.substr(pos)\<close> and \<open>s.substr(pos, n)\<close>; both throw when \<open>pos > s.size()\<close>.\<close>

definition substr :: "string \<Rightarrow> nat \<Rightarrow> string throws" where
  "substr s pos = (if pos > length s then None else Some (drop pos s))"

definition substr_n :: "string \<Rightarrow> nat \<Rightarrow> nat \<Rightarrow> string throws" where
  "substr_n s pos n = (if pos > length s then None else Some (take n (drop pos s)))"

section \<open>Helpers of the Kodi string library and of the C library\<close>

text \<open>
  \<open>kodi::tools::StringUtils\<close> and the C library are outside the repository. They are
  modelled by what their documentation says on bytes in the C locale.
\<close>

definition isspace :: "char \<Rightarrow> bool" where
  "isspace c = (c \<in> set [CHR '' '', CHR 0x09, CHR 0x0A, CHR 0x0B, CHR 0x0C, CHR 0x0D])"

text \<open>\<open>StringUtils::Trim(s)\<close> removes white space at both ends.\<close>

definition Trim :: "string \<Rightarrow> string" where
  "Trim s = rev (dropWhile isspace (rev (dropWhile isspace s)))"

text \<open>\<open>StringUtils::TrimLeft(s, chars)\<close> and \<open>StringUtils::TrimRight(s, chars)\<close>.\<close>

definition TrimLeft :: "string \<Rightarrow> string \<Rightarrow> string" where
  "TrimLeft s chars = dropWhile (\<lambda>c. c \<in> set chars) s"

definition TrimRight :: "string \<Rightarrow> string \<Rightarrow> string" where
  "TrimRight s chars = rev (dropWhile (\<lambda>c. c \<in> set chars) (rev s))"

definition StartsWith :: "string \<Rightarrow> string \<Rightarrow> bool" where
  "StartsWith s p = prefix p s"

definition Left :: "string \<Rightarrow> nat \<Rightarrow> string" where
  "Left s n = take n s"

definition tolower :: "char \<Rightarrow> char" where
  "tolower c =
     (case map_of (zip ''ABCDEFGHIJKLMNOPQRSTUVWXYZ'' ''abcdefghijklmnopqrstuvwxyz'') c of
        Some l \<Rightarrow> l
      | None \<Rightarrow> c)"

definition ToLower :: "string \<Rightarrow> string" where
  "ToLower s = map tolower s"

text \<open>\<open>StringUtils::EqualsNoCase\<close>: equal lengths and equal bytes up to ASCII case.\<close>

definition EqualsNoCase :: "string \<Rightarrow> string \<Rightarrow> bool" where
  "EqualsNoCase s1 s2 = (map tolower s1 = map tolower s2)"

text \<open>\<open>StringUtils::Split(s, sep)\<close> on a non-empty string: the pieces between separators.\<close>

fun Split :: "string \<Rightarrow> char \<Rightarrow> string list" where
  "Split [] sep = [[]]"
| "Split (c # cs) sep =
     (if c = sep then [] # Split cs sep
      else (case Split cs sep of [] \<Rightarrow> [[c]] | w # ws \<Rightarrow> (c # w) # ws))"

definition isdigit :: "char \<Rightarrow> bool" where
  "isdigit c = (c \<in> set ''0123456789'')"

definition digit_value :: "char \<Rightarrow> int" where
  "digit_value c =
     (case map_of [(CHR ''0'', 0), (CHR ''1'', 1), (CHR ''2'', 2), (CHR ''3'', 3), (CHR ''4'', 4),
                   (CHR ''5'', 5), (CHR ''6'', 6), (CHR ''7'', 7), (CHR ''8'', 8), (CHR ''9'', 9)] c of
        Some d \<Rightarrow> d
      | None \<Rightarrow> 0)"

fun digits_value :: "int \<Rightarrow> string \<Rightarrow> int" where
  "digits_value acc [] = acc"
| "digits_value acc (c # cs) =
     (if isdigit c then digits_value (acc * 10 + digit_value c) cs else acc)"

text \<open>
  What \<open>strtol\<close> and \<open>strtoll\<close> read in base 10: white space, an optional sign, then
  decimal digits; 0 when no digit follows.
\<close>

definition decimal_integer :: "string \<Rightarrow> int" where
  "decimal_integer s =
     (case dropWhile isspace s of
        [] \<Rightarrow> 0
      | c # cs \<Rightarrow>
          if c = CHR ''-'' then - digits_value 0 cs
          else if c = CHR ''+'' then digits_value 0 cs
          else digits_value 0 (c # cs))"

text \<open>
  \<open>std::strtoll\<close>: a number that does not fit \<open>long long\<close> (64 bits) is replaced by
  \<open>LLONG_MIN\<close> or \<open>LLONG_MAX\<close>.
\<close>

definition strtoll :: "string \<Rightarrow> int" where
  "strtoll s = max (- (2 ^ 63)) (min (2 ^ 63 - 1) (decimal_integer s))"

text \<open>The conversion of a \<open>long\<close> to \<open>int\<close> (32 bits): the value modulo \<open>2\<^sup>3\<^sup>2\<close>.\<close>

definition long_to_int :: "int \<Rightarrow> int" where
  "long_to_int n = (n + 2 ^ 31) mod 2 ^ 32 - 2 ^ 31"

text \<open>
  \<open>atoi\<close>. The C standard leaves the result undefined when the number is not an \<open>int\<close>;
  the model is the C library of GNU on a platform with a \<open>long\<close> of 64 bits, where
  \<open>atoi (s)\<close> is \<open>(int) strtol (s, NULL, 10)\<close>: the number is clamped to 64 bits, then cut
  to 32.
\<close>

definition atoi :: "string \<Rightarrow> int" where
  "atoi s = long_to_int (max (- (2 ^ 63)) (min (2 ^ 63 - 1) (decimal_integer s)))"

text \<open>\<open>sprintf(buff, "%d", i)\<close>: the decimal numeral of an integer.\<close>

definition digit_char :: "int \<Rightarrow> char" where
  "digit_char d =
     (case map_of [(0, CHR ''0''), (1, CHR ''1''), (2, CHR ''2''), (3, CHR ''3''), (4, CHR ''4''),
                   (5, CHR ''5''), (6, CHR ''6''), (7, CHR ''7''), (8, CHR ''8''), (9, CHR ''9'')] d of
        Some c \<Rightarrow> c
      | None \<Rightarrow> CHR ''0'')"

function decimal_digits :: "int \<Rightarrow> string" where
  "decimal_digits n =
     (if n < 10 then [digit_char n]
      else decimal_digits (n div 10) @ [digit_char (n mod 10)])"
  by pat_completeness auto
termination
  by (relation "measure nat") auto

declare decimal_digits.simps [simp del]

definition int_to_string :: "int \<Rightarrow> string" where
  "int_to_string i = (if i < 0 then CHR ''-'' # decimal_digits (- i) else decimal_digits i)"

subsection \<open>Double precision\<close>

text \<open>
  A \<open>double\<close> is a binary64 number of IEEE 754: a finite one is the rational number it
  denotes (the sign of a zero is not kept: no operation of the loader tells the two zeros
  apart), and there are the two infinities and the values that are not numbers.
\<close>

datatype double = Finite rat | PlusInfinity | MinusInfinity | NaN

text \<open>Powers with an integer exponent, by squaring.\<close>

function power_of :: "rat \<Rightarrow> int \<Rightarrow> rat" where
  "power_of b e =
     (if e \<le> 0 then 1
      else (let h = power_of b (e div 2) in if even e then h * h else b * h * h))"
  by pat_completeness auto
termination
  by (relation "measure (\<lambda>(b, e). nat e)") auto

declare power_of.simps [simp del]

definition pow2 :: "int \<Rightarrow> rat" where
  "pow2 e = (if 0 \<le> e then power_of 2 e else 1 / power_of 2 (- e))"

definition pow10 :: "int \<Rightarrow> rat" where
  "pow10 e = (if 0 \<le> e then power_of 10 e else 1 / power_of 10 (- e))"

definition round_half_even :: "rat \<Rightarrow> int" where
  "round_half_even q =
     (let f = \<lfloor>q\<rfloor>; r = q - of_int f in
      if r < 1 / 2 then f else if 1 / 2 < r then f + 1 else if even f then f else f + 1)"

text \<open>The exponent \<open>k\<close> with \<open>2\<^sup>k \<le> q < 2\<^sup>k\<^sup>+\<^sup>1\<close>, for a positive \<open>q\<close>.\<close>

definition binary_exponent :: "rat \<Rightarrow> int" where
  "binary_exponent q =
     (let (a, b) = quotient_of q;
          k = bitlen a - bitlen b
      in if pow2 k \<le> q then k else k - 1)"

text \<open>
  A rational number rounded to 53 significant bits, to nearest and ties to even, with the
  smallest step \<open>2\<^sup>-\<^sup>1\<^sup>0\<^sup>7\<^sup>4\<close> of binary64 and no bound on the exponent.
\<close>

definition round_53_bits :: "rat \<Rightarrow> rat" where
  "round_53_bits q =
     (if q = 0 then 0
      else (let e = max (binary_exponent \<bar>q\<bar> - 52) (- 1074)
            in of_int (round_half_even (q / pow2 e)) * pow2 e))"

text \<open>
  The double nearest to a rational number (the default rounding of IEEE 754): an infinity
  when the number rounded with no bound on the exponent reaches \<open>2\<^sup>1\<^sup>0\<^sup>2\<^sup>4\<close>, that is when
  its binary exponent is 1024 or more.
\<close>

definition round_binary64 :: "rat \<Rightarrow> double" where
  "round_binary64 q =
     (let r = round_53_bits q
      in if r = 0 then Finite 0
         else if 1024 \<le> binary_exponent \<bar>r\<bar> then (if 0 < r then PlusInfinity else MinusInfinity)
         else Finite r)"

text \<open>The product of two doubles.\<close>

fun double_mul :: "double \<Rightarrow> double \<Rightarrow> double" where
  "double_mul (Finite x) (Finite y) = round_binary64 (x * y)"
| "double_mul NaN y = NaN"
| "double_mul x NaN = NaN"
| "double_mul (Finite x) PlusInfinity =
     (if x = 0 then NaN else if 0 < x then PlusInfinity else MinusInfinity)"
| "double_mul (Finite x) MinusInfinity =
     (if x = 0 then NaN else if 0 < x then MinusInfinity else PlusInfinity)"
| "double_mul PlusInfinity (Finite y) =
     (if y = 0 then NaN else if 0 < y then PlusInfinity else MinusInfinity)"
| "double_mul MinusInfinity (Finite y) =
     (if y = 0 then NaN else if 0 < y then MinusInfinity else PlusInfinity)"
| "double_mul PlusInfinity PlusInfinity = PlusInfinity"
| "double_mul PlusInfinity MinusInfinity = MinusInfinity"
| "double_mul MinusInfinity PlusInfinity = MinusInfinity"
| "double_mul MinusInfinity MinusInfinity = PlusInfinity"

text \<open>
  \<open>static_cast<int>\<close> of a double: the value truncated toward zero when that is an \<open>int\<close>
  (32 bits). C++ leaves the conversion undefined otherwise (a truncated value out of
  range, an infinity, not a number); the model is the conversion instruction of x86-64
  (\<open>cvttsd2si\<close>), which then gives \<open>INT_MIN\<close>.
\<close>

definition double_to_int :: "double \<Rightarrow> int" where
  "double_to_int d =
     (case d of
        Finite q \<Rightarrow>
          (let t = (if 0 \<le> q then \<lfloor>q\<rfloor> else \<lceil>q\<rceil>)
           in if - (2 ^ 31) \<le> t \<and> t < 2 ^ 31 then t else - (2 ^ 31))
      | _ \<Rightarrow> - (2 ^ 31))"

subsection \<open>\<open>atof\<close>\<close>

text \<open>
  \<open>atof (s)\<close> is \<open>strtod (s, NULL)\<close> in the C locale: white space, an optional sign, then
  the longest of a decimal numeral (digits with an optional point, an optional exponent
  \<open>e\<close>), a hexadecimal numeral (\<open>0x\<close>, hexadecimal digits with an optional point, an
  optional binary exponent \<open>p\<close>), \<open>inf\<close> or \<open>infinity\<close>, \<open>nan\<close>, whatever the case of the
  letters; 0 when none is there. The result is the double nearest to the number written
  (the C library of GNU rounds correctly).
\<close>

definition isxdigit :: "char \<Rightarrow> bool" where
  "isxdigit c = (c \<in> set ''0123456789abcdefABCDEF'')"

definition xdigit_value :: "char \<Rightarrow> int" where
  "xdigit_value c =
     (case map_of [(CHR ''a'', 10), (CHR ''b'', 11), (CHR ''c'', 12), (CHR ''d'', 13),
                   (CHR ''e'', 14), (CHR ''f'', 15), (CHR ''A'', 10), (CHR ''B'', 11),
                   (CHR ''C'', 12), (CHR ''D'', 13), (CHR ''E'', 14), (CHR ''F'', 15)] c of
        Some d \<Rightarrow> d
      | None \<Rightarrow> digit_value c)"

fun xdigits_value :: "int \<Rightarrow> string \<Rightarrow> int" where
  "xdigits_value acc [] = acc"
| "xdigits_value acc (c # cs) =
     (if isxdigit c then xdigits_value (acc * 16 + xdigit_value c) cs else acc)"

text \<open>
  The exponent behind the digits: the letter \<open>e\<close> (or \<open>p\<close>), an optional sign and at least
  one decimal digit; anything else is no exponent.
\<close>

definition exponent_part :: "char \<Rightarrow> string \<Rightarrow> int" where
  "exponent_part e s =
     (case s of
        [] \<Rightarrow> 0
      | c # t \<Rightarrow>
          if tolower c \<noteq> e then 0
          else (case t of
                  [] \<Rightarrow> 0
                | d # u \<Rightarrow>
                    if d = CHR ''-'' then - digits_value 0 u
                    else if d = CHR ''+'' then digits_value 0 u
                    else digits_value 0 t))"

definition strtod_decimal :: "string \<Rightarrow> rat option" where
  "strtod_decimal s =
     (let whole = takeWhile isdigit s;
          rest = dropWhile isdigit s;
          point = (rest \<noteq> [] \<and> hd rest = CHR ''.'');
          fraction = (if point then takeWhile isdigit (tl rest) else []);
          rest = (if point then dropWhile isdigit (tl rest) else rest)
      in if whole = [] \<and> fraction = [] then None
         else Some (of_int (digits_value 0 (whole @ fraction)) / 10 ^ length fraction
                    * pow10 (exponent_part CHR ''e'' rest)))"

definition strtod_hexadecimal :: "string \<Rightarrow> rat option" where
  "strtod_hexadecimal s =
     (if map tolower (take 2 s) \<noteq> ''0x'' then None
      else (let s = drop 2 s;
                whole = takeWhile isxdigit s;
                rest = dropWhile isxdigit s;
                point = (rest \<noteq> [] \<and> hd rest = CHR ''.'');
                fraction = (if point then takeWhile isxdigit (tl rest) else []);
                rest = (if point then dropWhile isxdigit (tl rest) else rest)
            in if whole = [] \<and> fraction = [] then None
               else Some (of_int (xdigits_value 0 (whole @ fraction)) / 16 ^ length fraction
                          * pow2 (exponent_part CHR ''p'' rest))))"

text \<open>What is left of the text behind the white space and the sign, and the sign.\<close>

definition strtod_subject :: "string \<Rightarrow> bool \<times> string" where
  "strtod_subject s =
     (case dropWhile isspace s of
        [] \<Rightarrow> (False, [])
      | c # t \<Rightarrow>
          if c = CHR ''-'' then (True, t)
          else if c = CHR ''+'' then (False, t)
          else (False, c # t))"

text \<open>The number written, before it is rounded: 0 when no numeral is there.\<close>

definition strtod_exact :: "string \<Rightarrow> rat" where
  "strtod_exact s =
     (let (negative, t) = strtod_subject s;
          magnitude = (case strtod_hexadecimal t of
                         Some q \<Rightarrow> q
                       | None \<Rightarrow> (case strtod_decimal t of Some q \<Rightarrow> q | None \<Rightarrow> 0))
      in if negative then - magnitude else magnitude)"

definition atof :: "string \<Rightarrow> double" where
  "atof s =
     (let (negative, t) = strtod_subject s
      in if map tolower (take 3 t) = ''inf'' then (if negative then MinusInfinity else PlusInfinity)
         else if map tolower (take 3 t) = ''nan'' then NaN
         else round_binary64 (strtod_exact s))"

section \<open>The marker reader\<close>

definition dquote :: char where
  "dquote = CHR 0x22"

text \<open>
  \<open>PlaylistLoader::ReadMarkerValue\<close> (PlaylistLoader.cpp, lines 538-563). The read
  \<open>line[markerStart]\<close> is guarded by \<open>markerStart < line.length()\<close>.
\<close>

definition ReadMarkerValue :: "string \<Rightarrow> string \<Rightarrow> string throws" where
  "ReadMarkerValue line markerName =
     (case find_str line markerName of
        None \<Rightarrow> Some []
      | Some found \<Rightarrow>
          (let markerStart = found + length markerName in
           if markerStart < length line then
             (let quoted = (line ! markerStart = dquote);
                  findc = (if quoted then dquote else CHR '' '');
                  markerStart = (if quoted then markerStart + 1 else markerStart);
                  markerEnd = (case find_ch line findc markerStart of
                                 None \<Rightarrow> length line
                               | Some e \<Rightarrow> e)
              in substr_n line markerStart (markerEnd - markerStart))
           else Some []))"

subsection \<open>The contract of the marker reader, in the words of the specification\<close>

text \<open>
  The text that follows the first occurrence of the marker name in the line, if the
  marker occurs at all.
\<close>

fun after_first_occurrence :: "string \<Rightarrow> string \<Rightarrow> string option" where
  "after_first_occurrence marker [] = (if marker = [] then Some [] else None)"
| "after_first_occurrence marker (c # cs) =
     (if prefix marker (c # cs) then Some (drop (length marker) (c # cs))
      else after_first_occurrence marker cs)"

text \<open>
  The value that starts a text: up to the next double quote when the text opens with a
  double quote, up to the next space otherwise, and up to the end of the text when
  the terminator is missing.
\<close>

fun value_up_to_terminator :: "string \<Rightarrow> string" where
  "value_up_to_terminator [] = []"
| "value_up_to_terminator (c # cs) =
     (if c = dquote then takeWhile (\<lambda>x. x \<noteq> dquote) cs
      else takeWhile (\<lambda>x. x \<noteq> CHR '' '') (c # cs))"

definition marker_value_spec :: "string \<Rightarrow> string \<Rightarrow> string" where
  "marker_value_spec line markerName =
     (case after_first_occurrence markerName line of
        None \<Rightarrow> []
      | Some rest \<Rightarrow> value_up_to_terminator rest)"

section \<open>The data model\<close>

text \<open>
  The classes \<open>Channel\<close>, \<open>MediaEntry\<close>, \<open>ChannelGroup\<close>, \<open>Provider\<close> and \<open>Settings\<close> are
  declared in headers that are not among the sources. Their records hold the fields that
  the setters and getters called in PlaylistLoader.cpp and PVRIptvData.cpp name, as
  section 3 of the specification lists them.
\<close>

datatype CatchupMode = DISABLED | DEFAULT | APPEND | SHIFT | FLUSSONIC | XTREAM_CODES | TIMESHIFT | VOD

record Channel =
  IsRadio :: bool
  GetUniqueId :: int
  GetChannelNumber :: int
  GetSubChannelNumber :: int
  GetChannelName :: string
  GetTvgId :: string
  GetTvgName :: string
  GetTvgShift :: int
  GetIconPath :: string
  GetStreamURL :: string
  HasCatchup :: bool
  GetCatchupMode :: CatchupMode
  GetCatchupDays :: int
  GetCatchupSource :: string
  IsCatchupTSStream :: bool
  GetCatchupCorrectionSecs :: int
  GetProviderUniqueId :: int
  GetProperties :: "(string \<times> string) list"

text \<open>\<open>Channel::AddProperty\<close>: the calls are recorded in order.\<close>

definition AddProperty :: "string \<Rightarrow> string \<Rightarrow> Channel \<Rightarrow> Channel" where
  "AddProperty prop v channel = channel\<lparr>GetProperties := GetProperties channel @ [(prop, v)]\<rparr>"

record MediaEntry =
  fromChannel :: "Channel option"
  GetDirectory :: string
  GetSizeInBytes :: int
  mediaStreamURL :: string

text \<open>
  Modelled from the spec: \<open>MediaEntry::UpdateFrom\<close> is missing from the sources;
  section 4.5 says that it folds the fields of the scratch channel into the media entry.
\<close>

definition UpdateFrom :: "Channel \<Rightarrow> MediaEntry \<Rightarrow> MediaEntry" where
  "UpdateFrom channel entry = entry\<lparr>fromChannel := Some channel\<rparr>"

record ChannelGroup =
  groupUniqueId :: int
  groupName :: string
  groupRadio :: bool
  members :: "int list"

datatype PVR_PROVIDER_TYPE =
  PVR_PROVIDER_TYPE_UNKNOWN | PVR_PROVIDER_TYPE_ADDON | PVR_PROVIDER_TYPE_SATELLITE
| PVR_PROVIDER_TYPE_CABLE | PVR_PROVIDER_TYPE_AERIAL | PVR_PROVIDER_TYPE_IPTV

record Provider =
  provUniqueId :: int
  provName :: string
  provType :: PVR_PROVIDER_TYPE
  provIconPath :: string
  provCountries :: "string list"
  provLanguages :: "string list"

text \<open>
  Modelled from the spec: \<open>Providers::AddProvider\<close> is missing from the sources. Section 4.2:
  an empty name gives no provider; a name that is registered gives the registered
  provider; any other name registers a new provider whose identifier is the next one,
  counting from 1. The result is the identifier of the provider, with the registry.
\<close>

definition AddProvider :: "string \<Rightarrow> Provider list \<Rightarrow> int option \<times> Provider list" where
  "AddProvider name provs =
     (if name = [] then (None, provs)
      else (case find (\<lambda>p. provName p = name) provs of
              Some p \<Rightarrow> (Some (provUniqueId p), provs)
            | None \<Rightarrow>
                (let uid = int (length provs) + 1
                 in (Some uid,
                     provs @ [\<lparr>provUniqueId = uid, provName = name, provType = PVR_PROVIDER_TYPE_UNKNOWN,
                               provIconPath = [], provCountries = [], provLanguages = []\<rparr>]))))"

text \<open>A setter called through the pointer that \<open>AddProvider\<close> returned.\<close>

definition update_provider :: "int \<Rightarrow> (Provider \<Rightarrow> Provider) \<Rightarrow> Provider list \<Rightarrow> Provider list" where
  "update_provider uid f provs = map (\<lambda>p. if provUniqueId p = uid then f p else p) provs"

datatype PathType = LOCAL_PATH | REMOTE_PATH

datatype RefreshMode = REFRESH_DISABLED | REPEATED_REFRESH | ONCE_PER_DAY

record Settings =
  M3ULocation :: string
  M3URefreshMode :: RefreshMode
  UseM3UCache :: bool
  CatchupCorrectionSecs :: int
  NumberChannelsByM3uOrderOnly :: bool
  LogoPathType :: PathType
  UseLocalLogosOnlyIgnoreM3U :: bool
  CatchupDays :: int
  HasDefaultProviderName :: bool
  DefaultProviderName :: string
  IsMediaEnabled :: bool
  ShowVodAsRecordings :: bool
  IsCatchupEnabled :: bool
  CatchupOnlyOnFinishedProgrammes :: bool
  TvgUrl :: string

text \<open>The defaults read from the \<open>#EXTM3U\<close> line (\<open>m_m3uHeaderStrings\<close>).\<close>

record M3uHeaderStrings =
  m_catchup :: string
  m_catchupDays :: string
  m_catchupSource :: string

text \<open>
  What the loader calls and the repository's sources do not hold: the conversion of the
  host (\<open>kodi::UnknownToUTF8\<close>), the value of the constant \<open>IGNORE_CATCHUP_DAYS\<close>, the
  separator of the provider lists, the default-constructed channel, media entry and
  group, and the methods of the channel, of the stores and of the file cache whose
  bodies are in other files. They are parameters.
\<close>

record externals =
  UnknownToUTF8 :: "string \<Rightarrow> string"
  IGNORE_CATCHUP_DAYS :: int
  PROVIDER_STRING_TOKEN_SEPARATOR :: char
  IconPathFromTvgLogo :: "string \<Rightarrow> string \<Rightarrow> string"
  DefaultChannel :: Channel
  DefaultMediaEntry :: MediaEntry
  DefaultChannelGroup :: ChannelGroup
  ConfigureCatchupMode :: "Channel \<Rightarrow> Channel"
  ResetChannel :: "Channel \<Rightarrow> Channel"
  ResetMediaEntry :: "MediaEntry \<Rightarrow> MediaEntry"
  GetCachedFileContents :: "string \<Rightarrow> bool \<Rightarrow> string option"
  GetCurrentChannelNumber :: "Channel list \<Rightarrow> int"
  AddChannel ::
    "Channel \<Rightarrow> int list \<Rightarrow> bool \<Rightarrow> Channel list \<times> ChannelGroup list
       \<Rightarrow> bool \<times> Channel list \<times> ChannelGroup list"
  AddMediaEntry :: "MediaEntry \<Rightarrow> MediaEntry list \<Rightarrow> bool \<times> MediaEntry list"
  CheckChannelGroupAllowed :: "ChannelGroup \<Rightarrow> bool"
  AddChannelGroup :: "ChannelGroup \<Rightarrow> ChannelGroup list \<Rightarrow> int \<times> ChannelGroup list"

subsection \<open>The markers\<close>

text \<open>
  Modelled from the spec: the marker constants are declared in PlaylistLoader.h, which is
  missing from the sources. The comments of \<open>LoadPlayList\<close> give the line markers;
  section 6 of the specification gives the attribute keys, written \<open>key="value"\<close> or
  \<open>key=value\<close>, and \<open>ReadMarkerValue\<close> reads the value right behind the marker, so that
  every attribute marker ends with the equals sign.
\<close>

definition M3U_START_MARKER :: string where "M3U_START_MARKER = ''#EXTM3U''"
definition M3U_INFO_MARKER :: string where "M3U_INFO_MARKER = ''#EXTINF''"
definition M3U_GROUP_MARKER :: string where "M3U_GROUP_MARKER = ''#EXTGRP:''"
definition KODIPROP_MARKER :: string where "KODIPROP_MARKER = ''#KODIPROP:''"
definition EXTVLCOPT_MARKER :: string where "EXTVLCOPT_MARKER = ''#EXTVLCOPT:''"
definition EXTVLCOPT_DASH_MARKER :: string where "EXTVLCOPT_DASH_MARKER = ''#EXTVLCOPT--''"
definition PLAYLIST_TYPE_MARKER :: string where "PLAYLIST_TYPE_MARKER = ''#EXT-X-PLAYLIST-TYPE:''"
definition TVG_URL_MARKER :: string where "TVG_URL_MARKER = ''x-tvg-url=''"
definition TVG_URL_OTHER_MARKER :: string where "TVG_URL_OTHER_MARKER = ''url-tvg=''"
definition TVG_INFO_ID_MARKER :: string where "TVG_INFO_ID_MARKER = ''tvg-id=''"
definition TVG_INFO_ID_MARKER_UC :: string where "TVG_INFO_ID_MARKER_UC = ''tvg-ID=''"
definition TVG_INFO_NAME_MARKER :: string where "TVG_INFO_NAME_MARKER = ''tvg-name=''"
definition TVG_INFO_LOGO_MARKER :: string where "TVG_INFO_LOGO_MARKER = ''tvg-logo=''"
definition TVG_INFO_SHIFT_MARKER :: string where "TVG_INFO_SHIFT_MARKER = ''tvg-shift=''"
definition TVG_INFO_CHNO_MARKER :: string where "TVG_INFO_CHNO_MARKER = ''tvg-chno=''"
definition CHANNEL_NUMBER_MARKER :: string where "CHANNEL_NUMBER_MARKER = ''channel-number=''"
definition TVG_INFO_REC :: string where "TVG_INFO_REC = ''tvg-rec=''"
definition GROUP_NAME_MARKER :: string where "GROUP_NAME_MARKER = ''group-title=''"
definition RADIO_MARKER :: string where "RADIO_MARKER = ''radio=''"
definition CATCHUP :: string where "CATCHUP = ''catchup=''"
definition CATCHUP_TYPE :: string where "CATCHUP_TYPE = ''catchup-type=''"
definition CATCHUP_DAYS :: string where "CATCHUP_DAYS = ''catchup-days=''"
definition CATCHUP_SOURCE :: string where "CATCHUP_SOURCE = ''catchup-source=''"
definition CATCHUP_SIPTV :: string where "CATCHUP_SIPTV = ''timeshift=''"
definition CATCHUP_CORRECTION :: string where "CATCHUP_CORRECTION = ''catchup-correction=''"
definition PROVIDER :: string where "PROVIDER = ''provider=''"
definition PROVIDER_TYPE :: string where "PROVIDER_TYPE = ''provider-type=''"
definition PROVIDER_LOGO :: string where "PROVIDER_LOGO = ''provider-logo=''"
definition PROVIDER_COUNTRIES :: string where "PROVIDER_COUNTRIES = ''provider-countries=''"
definition PROVIDER_LANGUAGES :: string where "PROVIDER_LANGUAGES = ''provider-languages=''"
definition MEDIA :: string where "MEDIA = ''media=''"
definition MEDIA_DIR :: string where "MEDIA_DIR = ''media-dir=''"
definition MEDIA_SIZE :: string where "MEDIA_SIZE = ''media-size=''"

definition PVR_STREAM_PROPERTY_ISREALTIMESTREAM :: string where
  "PVR_STREAM_PROPERTY_ISREALTIMESTREAM = ''isrealtimestream''"

definition PVR_STREAM_PROPERTY_INPUTSTREAM :: string where
  "PVR_STREAM_PROPERTY_INPUTSTREAM = ''inputstream''"

section \<open>The channel builder\<close>

text \<open>
  What \<open>ParseIntoChannel\<close> works on: the scratch channel, the scratch media entry and
  the list of group identifiers that the caller passes by reference, and the provider
  registry \<open>m_providers\<close> of the loader (the field \<open>p_providers\<close>).
\<close>

record parse_state =
  p_channel :: Channel
  p_mediaEntry :: MediaEntry
  p_groupIdList :: "int list"
  p_providers :: "Provider list"

text \<open>
  Lines 239-255: the comma that ends the attribute section. It is the last comma of the
  line, unless the text behind the last double quote, trimmed, starts with a comma: then
  it is the first comma behind that quote. In \<open>lastQuoteIndex + possibleName.find(',') + 1\<close>
  a result \<open>npos\<close> of \<open>find\<close> would wrap around to \<open>lastQuoteIndex\<close>. The unused copy
  \<open>temp\<close> is kept, since \<open>substr\<close> may throw.
\<close>

definition select_comma :: "string \<Rightarrow> nat option throws" where
  "select_comma line =
     (let commaIndex = rfind_ch line CHR '','' in
      case rfind_ch line dquote of
        None \<Rightarrow> Some commaIndex
      | Some lastQuoteIndex \<Rightarrow>
          do {
            possibleName \<leftarrow> substr line (lastQuoteIndex + 1);
            let commaName = Trim possibleName;
            if StartsWith commaName '','' then
              do {
                let commaIndex =
                  (case find_ch possibleName CHR '','' 0 of
                     Some k \<Rightarrow> lastQuoteIndex + k + 1
                   | None \<Rightarrow> lastQuoteIndex);
                temp \<leftarrow> substr line (commaIndex + 1);
                Some (Some commaIndex)
              }
            else Some commaIndex
          })"

text \<open>Lines 309-325: the channel number, with an optional sub-channel number.\<close>

definition parse_channel_number :: "Settings \<Rightarrow> string \<Rightarrow> Channel \<Rightarrow> Channel throws" where
  "parse_channel_number cfg strChnlNo channel =
     (if strChnlNo \<noteq> [] \<and> \<not> NumberChannelsByM3uOrderOnly cfg then
        (case find_ch strChnlNo CHR ''.'' 0 of
           Some found \<Rightarrow>
             do {
               major \<leftarrow> substr_n strChnlNo 0 found;
               minor \<leftarrow> substr strChnlNo (found + 1);
               Some (channel\<lparr>GetChannelNumber := atoi major, GetSubChannelNumber := atoi minor\<rparr>)
             }
         | None \<Rightarrow> Some (channel\<lparr>GetChannelNumber := atoi strChnlNo\<rparr>))
      else Some channel)"

text \<open>\<open>static_cast<int>(std::atof(s.c_str()) * 3600.0)\<close>, lines 327, 336, 345 and 346.\<close>

definition decimal_hours_to_seconds :: "string \<Rightarrow> int" where
  "decimal_hours_to_seconds s = double_to_int (double_mul (atof s) (Finite 3600))"

text \<open>Lines 338-341: the icon path, from the logo of the line or from the channel name alone.\<close>

definition set_icon_path :: "externals \<Rightarrow> Settings \<Rightarrow> string \<Rightarrow> string \<Rightarrow> Channel \<Rightarrow> Channel" where
  "set_icon_path ext cfg strTvgLogo name channel =
     (if LogoPathType cfg = LOCAL_PATH \<and> UseLocalLogosOnlyIgnoreM3U cfg
      then channel\<lparr>GetIconPath := IconPathFromTvgLogo ext [] name\<rparr>
      else channel\<lparr>GetIconPath := IconPathFromTvgLogo ext strTvgLogo name\<rparr>)"

text \<open>Lines 342-343: without a \<open>tvg-shift\<close> value the channel takes the shift of the header.\<close>

definition default_tvg_shift :: "string \<Rightarrow> int \<Rightarrow> Channel \<Rightarrow> Channel" where
  "default_tvg_shift strTvgShift epgTimeShift channel =
     (if strTvgShift = [] then channel\<lparr>GetTvgShift := epgTimeShift\<rparr> else channel)"

text \<open>Lines 347-348: the same for the catchup correction.\<close>

definition default_catchup_correction :: "string \<Rightarrow> int \<Rightarrow> Channel \<Rightarrow> Channel" where
  "default_catchup_correction strCatchupCorrection catchupCorrection channel =
     (if strCatchupCorrection = [] then channel\<lparr>GetCatchupCorrectionSecs := catchupCorrection\<rparr>
      else channel)"

text \<open>Lines 350-372: the catchup mode that the token names.\<close>

definition set_catchup_mode :: "string \<Rightarrow> Channel \<Rightarrow> Channel" where
  "set_catchup_mode strCatchup channel =
     (let channel =
            (if EqualsNoCase strCatchup ''default'' \<or> EqualsNoCase strCatchup ''append'' \<or>
                EqualsNoCase strCatchup ''shift'' \<or> EqualsNoCase strCatchup ''flussonic'' \<or>
                EqualsNoCase strCatchup ''flussonic-hls'' \<or> EqualsNoCase strCatchup ''flussonic-ts'' \<or>
                EqualsNoCase strCatchup ''fs'' \<or> EqualsNoCase strCatchup ''xc'' \<or>
                EqualsNoCase strCatchup ''vod''
             then channel\<lparr>HasCatchup := True\<rparr> else channel);
          channel =
            (if EqualsNoCase strCatchup ''default'' then channel\<lparr>GetCatchupMode := DEFAULT\<rparr>
             else if EqualsNoCase strCatchup ''append'' then channel\<lparr>GetCatchupMode := APPEND\<rparr>
             else if EqualsNoCase strCatchup ''shift'' then channel\<lparr>GetCatchupMode := SHIFT\<rparr>
             else if EqualsNoCase strCatchup ''flussonic'' \<or> EqualsNoCase strCatchup ''flussonic-hls'' \<or>
                     EqualsNoCase strCatchup ''flussonic-ts'' \<or> EqualsNoCase strCatchup ''fs''
               then channel\<lparr>GetCatchupMode := FLUSSONIC\<rparr>
             else if EqualsNoCase strCatchup ''xc'' then channel\<lparr>GetCatchupMode := XTREAM_CODES\<rparr>
             else if EqualsNoCase strCatchup ''vod'' then channel\<lparr>GetCatchupMode := VOD\<rparr>
             else channel)
      in if EqualsNoCase strCatchup ''flussonic-ts'' \<or> EqualsNoCase strCatchup ''fs''
         then channel\<lparr>IsCatchupTSStream := True\<rparr> else channel)"

text \<open>Lines 374-378: the catchup of the xeev header, marked in the channel name.\<close>

definition set_xeev_catchup :: "bool \<Rightarrow> string \<Rightarrow> Channel \<Rightarrow> Channel" where
  "set_xeev_catchup xeevCatchup name channel =
     (if \<not> HasCatchup channel \<and> xeevCatchup \<and> (StartsWith name ''* '' \<or> StartsWith name ''[+] '')
      then channel\<lparr>HasCatchup := True, GetCatchupMode := XTREAM_CODES\<rparr>
      else channel)"

text \<open>Lines 380-385: the day count of \<open>timeshift\<close>, or of \<open>tvg-rec\<close> in its place.\<close>

definition siptv_timeshift_days :: "string \<Rightarrow> string \<Rightarrow> int" where
  "siptv_timeshift_days strCatchupSiptv strTvgRec =
     (let siptvTimeshiftDays = (if strCatchupSiptv \<noteq> [] then atoi strCatchupSiptv else 0)
      in if strTvgRec \<noteq> [] \<and> siptvTimeshiftDays = 0 then atoi strTvgRec else siptvTimeshiftDays)"

text \<open>Lines 387-397: the catchup days. The second test reads \<open>m_catchupSource\<close>.\<close>

definition set_catchup_days ::
  "externals \<Rightarrow> Settings \<Rightarrow> M3uHeaderStrings \<Rightarrow> string \<Rightarrow> int \<Rightarrow> Channel \<Rightarrow> Channel" where
  "set_catchup_days ext cfg hdr strCatchupDays siptvTimeshiftDays channel =
     (if strCatchupDays \<noteq> [] then channel\<lparr>GetCatchupDays := atoi strCatchupDays\<rparr>
      else if m_catchupSource hdr \<noteq> [] then channel\<lparr>GetCatchupDays := atoi (m_catchupDays hdr)\<rparr>
      else if GetCatchupMode channel = VOD then channel\<lparr>GetCatchupDays := IGNORE_CATCHUP_DAYS ext\<rparr>
      else if siptvTimeshiftDays > 0 then channel\<lparr>GetCatchupDays := siptvTimeshiftDays\<rparr>
      else channel\<lparr>GetCatchupDays := CatchupDays cfg\<rparr>)"

text \<open>Lines 402-406: the mode of a channel that only has the \<open>timeshift\<close> day count.\<close>

definition set_timeshift_mode :: "int \<Rightarrow> Channel \<Rightarrow> Channel" where
  "set_timeshift_mode siptvTimeshiftDays channel =
     (if \<not> HasCatchup channel \<and> siptvTimeshiftDays > 0
      then channel\<lparr>GetCatchupMode := TIMESHIFT, HasCatchup := True\<rparr>
      else channel)"

text \<open>Lines 414-429: the type of a provider, from its name in lower case.\<close>

definition provider_type_of :: "string \<Rightarrow> PVR_PROVIDER_TYPE" where
  "provider_type_of strProviderType =
     (if strProviderType = ''addon'' then PVR_PROVIDER_TYPE_ADDON
      else if strProviderType = ''satellite'' then PVR_PROVIDER_TYPE_SATELLITE
      else if strProviderType = ''cable'' then PVR_PROVIDER_TYPE_CABLE
      else if strProviderType = ''aerial'' then PVR_PROVIDER_TYPE_AERIAL
      else if strProviderType = ''iptv'' then PVR_PROVIDER_TYPE_IPTV
      else PVR_PROVIDER_TYPE_UNKNOWN)"

text \<open>Lines 414-444: the fields of the provider that \<open>AddProvider\<close> returned.\<close>

definition configure_provider ::
  "externals \<Rightarrow> int \<Rightarrow> string \<Rightarrow> string \<Rightarrow> string \<Rightarrow> string \<Rightarrow> Provider list \<Rightarrow> Provider list" where
  "configure_provider ext uid strProviderType strProviderIconPath strProviderCountries
       strProviderLanguages provs =
     (let strProviderType = ToLower strProviderType;
          provs = (if strProviderType \<noteq> []
                   then update_provider uid (\<lambda>p. p\<lparr>provType := provider_type_of strProviderType\<rparr>) provs
                   else provs);
          provs = (if strProviderIconPath \<noteq> []
                   then update_provider uid (\<lambda>p. p\<lparr>provIconPath := strProviderIconPath\<rparr>) provs
                   else provs);
          provs = (if strProviderCountries \<noteq> []
                   then update_provider uid
                          (\<lambda>p. p\<lparr>provCountries :=
                                   Split strProviderCountries (PROVIDER_STRING_TOKEN_SEPARATOR ext)\<rparr>) provs
                   else provs)
      in if strProviderLanguages \<noteq> []
         then update_provider uid
                (\<lambda>p. p\<lparr>provLanguages :=
                         Split strProviderLanguages (PROVIDER_STRING_TOKEN_SEPARATOR ext)\<rparr>) provs
         else provs)"

text \<open>Line 446: the channel is linked to the provider, if there is one.\<close>

definition link_provider :: "int option \<Rightarrow> Channel \<Rightarrow> Channel" where
  "link_provider provider channel =
     (case provider of None \<Rightarrow> channel | Some uid \<Rightarrow> channel\<lparr>GetProviderUniqueId := uid\<rparr>)"

text \<open>Lines 449-453: the directory and the size of a media entry.\<close>

definition parse_media :: "string \<Rightarrow> string \<Rightarrow> MediaEntry \<Rightarrow> MediaEntry" where
  "parse_media strMediaDir strMediaSize entry =
     (let entry = (if strMediaDir \<noteq> [] then entry\<lparr>GetDirectory := strMediaDir\<rparr> else entry)
      in if strMediaSize \<noteq> [] then entry\<lparr>GetSizeInBytes := strtoll strMediaSize\<rparr> else entry)"

text \<open>
  Lines 259-455: the body of \<open>ParseIntoChannel\<close> for a line whose first colon is at
  \<open>colonIndex\<close> and whose chosen comma is at \<open>commaIndex\<close>, in the order of the source.
  The local \<open>strCatchupSource\<close> takes the header's value only after the channel's field
  has been set (lines 332-335), and nothing reads it afterwards.
\<close>

definition parse_attributes ::
  "externals \<Rightarrow> Settings \<Rightarrow> M3uHeaderStrings \<Rightarrow> string \<Rightarrow> nat \<Rightarrow> nat \<Rightarrow> int \<Rightarrow> int \<Rightarrow> bool
     \<Rightarrow> parse_state \<Rightarrow> (string \<times> parse_state) throws" where
  "parse_attributes ext cfg hdr line colonIndex commaIndex epgTimeShift catchupCorrection xeevCatchup st =
     do {
       channelName \<leftarrow> substr line (commaIndex + 1);
       let channelName = UnknownToUTF8 ext (Trim channelName);
       let channel = (p_channel st)\<lparr>GetChannelName := channelName\<rparr>;
       infoLine \<leftarrow> substr_n line (colonIndex + 1) (commaIndex - colonIndex - 1);
       strTvgId \<leftarrow> ReadMarkerValue infoLine TVG_INFO_ID_MARKER;
       strTvgName \<leftarrow> ReadMarkerValue infoLine TVG_INFO_NAME_MARKER;
       strTvgLogo \<leftarrow> ReadMarkerValue infoLine TVG_INFO_LOGO_MARKER;
       strChnlNo \<leftarrow> ReadMarkerValue infoLine TVG_INFO_CHNO_MARKER;
       strRadio \<leftarrow> ReadMarkerValue infoLine RADIO_MARKER;
       strTvgShift \<leftarrow> ReadMarkerValue infoLine TVG_INFO_SHIFT_MARKER;
       strCatchup \<leftarrow> ReadMarkerValue infoLine CATCHUP;
       strCatchupDays \<leftarrow> ReadMarkerValue infoLine CATCHUP_DAYS;
       strTvgRec \<leftarrow> ReadMarkerValue infoLine TVG_INFO_REC;
       strCatchupSource \<leftarrow> ReadMarkerValue infoLine CATCHUP_SOURCE;
       strCatchupSiptv \<leftarrow> ReadMarkerValue infoLine CATCHUP_SIPTV;
       strCatchupCorrection \<leftarrow> ReadMarkerValue infoLine CATCHUP_CORRECTION;
       strProviderName \<leftarrow> ReadMarkerValue infoLine PROVIDER;
       strProviderType \<leftarrow> ReadMarkerValue infoLine PROVIDER_TYPE;
       strProviderIconPath \<leftarrow> ReadMarkerValue infoLine PROVIDER_LOGO;
       strProviderCountries \<leftarrow> ReadMarkerValue infoLine PROVIDER_COUNTRIES;
       strProviderLanguages \<leftarrow> ReadMarkerValue infoLine PROVIDER_LANGUAGES;
       strMedia \<leftarrow> ReadMarkerValue infoLine MEDIA;
       strMediaDir \<leftarrow> ReadMarkerValue infoLine MEDIA_DIR;
       strMediaSize \<leftarrow> ReadMarkerValue infoLine MEDIA_SIZE;
       let strTvgName = UnknownToUTF8 ext strTvgName;
       let strCatchupSource = UnknownToUTF8 ext strCatchupSource;
       strCatchup \<leftarrow> (if strCatchup = [] then ReadMarkerValue infoLine CATCHUP_TYPE else Some strCatchup);
       let strCatchup = (if strCatchup = [] \<and> m_catchup hdr \<noteq> [] then m_catchup hdr else strCatchup);
       strTvgId \<leftarrow> (if strTvgId = [] then ReadMarkerValue infoLine TVG_INFO_ID_MARKER_UC else Some strTvgId);
       let strTvgId = (if strTvgId = [] then int_to_string (atoi infoLine) else strTvgId);
       strChnlNo \<leftarrow> (if strChnlNo = [] then ReadMarkerValue infoLine CHANNEL_NUMBER_MARKER else Some strChnlNo);
       channel \<leftarrow> parse_channel_number cfg strChnlNo channel;
       let isRadio = EqualsNoCase strRadio ''true'';
       let channel = channel\<lparr>GetTvgId := strTvgId\<rparr>;
       let channel = channel\<lparr>GetTvgName := strTvgName\<rparr>;
       let channel = channel\<lparr>GetCatchupSource := strCatchupSource\<rparr>;
       let strCatchupSource =
         (if strCatchupSource = [] \<and> m_catchupSource hdr \<noteq> [] then m_catchupSource hdr
          else strCatchupSource);
       let channel = channel\<lparr>GetTvgShift := decimal_hours_to_seconds strTvgShift\<rparr>;
       let channel = channel\<lparr>IsRadio := isRadio\<rparr>;
       let channel = set_icon_path ext cfg strTvgLogo channelName channel;
       let channel = default_tvg_shift strTvgShift epgTimeShift channel;
       let channel = channel\<lparr>GetCatchupCorrectionSecs := decimal_hours_to_seconds strCatchupCorrection\<rparr>;
       let channel = default_catchup_correction strCatchupCorrection catchupCorrection channel;
       let channel = set_catchup_mode strCatchup channel;
       let channel = set_xeev_catchup xeevCatchup channelName channel;
       let siptvTimeshiftDays = siptv_timeshift_days strCatchupSiptv strTvgRec;
       let channel = set_catchup_days ext cfg hdr strCatchupDays siptvTimeshiftDays channel;
       let channel = set_timeshift_mode siptvTimeshiftDays channel;
       let strProviderName =
         (if strProviderName = [] \<and> HasDefaultProviderName cfg then DefaultProviderName cfg
          else strProviderName);
       let (provider, provs) = AddProvider strProviderName (p_providers st);
       let provs =
         (case provider of
            None \<Rightarrow> provs
          | Some uid \<Rightarrow>
              configure_provider ext uid strProviderType strProviderIconPath strProviderCountries
                strProviderLanguages provs);
       let channel = link_provider provider channel;
       let entry = parse_media strMediaDir strMediaSize (p_mediaEntry st);
       groupTitle \<leftarrow> ReadMarkerValue infoLine GROUP_NAME_MARKER;
       Some (groupTitle, st\<lparr>p_channel := channel, p_mediaEntry := entry, p_providers := provs\<rparr>)
     }"

text \<open>
  \<open>PlaylistLoader::ParseIntoChannel\<close> (lines 236-459). A line that fails the test of
  line 257 gives the empty string and leaves everything as it was.
\<close>

definition ParseIntoChannel ::
  "externals \<Rightarrow> Settings \<Rightarrow> M3uHeaderStrings \<Rightarrow> string \<Rightarrow> int \<Rightarrow> int \<Rightarrow> bool
     \<Rightarrow> parse_state \<Rightarrow> (string \<times> parse_state) throws" where
  "ParseIntoChannel ext cfg hdr line epgTimeShift catchupCorrection xeevCatchup st =
     do {
       let colonIndex = find_ch line CHR '':'' 0;
       commaIndex \<leftarrow> select_comma line;
       (case (colonIndex, commaIndex) of
          (Some colon, Some comma) \<Rightarrow>
            if comma > colon
            then parse_attributes ext cfg hdr line colon comma epgTimeShift catchupCorrection xeevCatchup st
            else Some ([], st)
        | _ \<Rightarrow> Some ([], st))
     }"

text \<open>
  The catchup token that the mode selection examines, in the words of the specification:
  the attribute \<open>catchup\<close>, else the attribute \<open>catchup-type\<close>, else the header default.
\<close>

definition effective_catchup_token :: "M3uHeaderStrings \<Rightarrow> string \<Rightarrow> string" where
  "effective_catchup_token hdr infoLine =
     (let a = marker_value_spec infoLine CATCHUP; b = marker_value_spec infoLine CATCHUP_TYPE
      in if a \<noteq> [] then a else if b \<noteq> [] then b else m_catchup hdr)"

text \<open>
  The text behind the last double quote of a line, and the text behind the first comma
  of a text, as the name extraction of the specification speaks of them.
\<close>

definition after_last_quote :: "string \<Rightarrow> string" where
  "after_last_quote line = rev (takeWhile (\<lambda>c. c \<noteq> dquote) (rev line))"

definition after_first_comma :: "string \<Rightarrow> string" where
  "after_first_comma s = drop 1 (dropWhile (\<lambda>c. c \<noteq> CHR '','') s)"

text \<open>
  The shift in the words of section 4.3: the value read as decimal hours, the number
  written taken exactly, times 3600 and truncated toward zero.
\<close>

definition decimal_hours_in_seconds :: "string \<Rightarrow> int" where
  "decimal_hours_in_seconds s =
     (let seconds = strtod_exact s * 3600
      in if 0 \<le> seconds then \<lfloor>seconds\<rfloor> else \<lceil>seconds\<rceil>)"

section \<open>The playlist loader\<close>

datatype LogLevel = LEVEL_DEBUG | LEVEL_INFO | LEVEL_ERROR

text \<open>
  The calls of \<open>Logger::Log\<close> in \<open>LoadPlayList\<close> and in \<open>ParseSinglePropertyIntoChannel\<close>,
  by what they report, in the order of the source: the start of the load (line 44), the
  missing path (48), the failed read of the file (58), a line read (83), the missing
  \<open>#EXTM3U\<close> (132), the address of an entry (182), a channel that was not added (193), a
  media entry that was not added (202), the end of the parse (219), no channel and no
  media entry loaded (223), the four counts (228-231), and a property that was
  found (511).
\<close>

datatype LogMessage =
  Playlist_Load_Start | Path_Not_Configured | Unable_To_Load_File | M3U_Line_Read
| Missing_Start_Marker | Adding_Channel | Not_Adding_Channel | Could_Not_Add_Media
| Playlist_Loaded | Unable_To_Load_Channels_Or_Media | Loaded_Channels
| Loaded_Channel_Groups | Loaded_Providers | Loaded_Media | Found_Property

text \<open>
  The loader with what it refers to: its members, the four stores, the settings
  singleton (\<open>SetTvgUrl\<close> writes to it) and the log.
\<close>

record loader =
  m_m3uLocation :: string
  m_m3uHeaderStrings :: M3uHeaderStrings
  m_channels :: "Channel list"
  m_channelGroups :: "ChannelGroup list"
  m_providers :: "Provider list"
  m_media :: "MediaEntry list"
  settings :: Settings
  logged :: "(LogLevel \<times> LogMessage) list"

definition Log :: "LogLevel \<Rightarrow> LogMessage \<Rightarrow> loader \<Rightarrow> loader" where
  "Log level msg this = this\<lparr>logged := logged this @ [(level, msg)]\<rparr>"

text \<open>
  Modelled from the spec: \<open>GetChannelsAmount\<close> and \<open>GetNumMedia\<close> are missing from the
  sources; they report the number of entries of the channel store and of the media store.
\<close>

definition GetChannelsAmount :: "loader \<Rightarrow> nat" where
  "GetChannelsAmount this = length (m_channels this)"

definition GetNumMedia :: "loader \<Rightarrow> nat" where
  "GetNumMedia this = length (m_media this)"

text \<open>The local variables of \<open>LoadPlayList\<close> (lines 65-75), with the loader.\<close>

record load_state =
  this :: loader
  isFirstLine :: bool
  isRealTime :: bool
  isMediaEntry :: bool
  epgTimeShift :: int
  catchupCorrectionSecs :: int
  currentChannelGroupIdList :: "int list"
  channelHadGroups :: bool
  xeevCatchup :: bool
  tmpChannel :: Channel
  tmpMediaEntry :: MediaEntry

text \<open>
  \<open>std::getline(stream, s, sep)\<close> called until it fails: the pieces between separators;
  an empty piece at the end of the text is not a piece.
\<close>

fun getlines_from :: "char \<Rightarrow> string \<Rightarrow> string \<Rightarrow> string list" where
  "getlines_from sep acc [] = (if acc = [] then [] else [rev acc])"
| "getlines_from sep acc (c # cs) =
     (if c = sep then rev acc # getlines_from sep [] cs else getlines_from sep (c # acc) cs)"

definition getlines :: "char \<Rightarrow> string \<Rightarrow> string list" where
  "getlines sep content = getlines_from sep [] content"

text \<open>Lines 95-129: the defaults of the \<open>#EXTM3U\<close> line.\<close>

definition read_m3u_header :: "externals \<Rightarrow> string \<Rightarrow> load_state \<Rightarrow> load_state throws" where
  "read_m3u_header ext line s =
     do {
       strTvgShift \<leftarrow> ReadMarkerValue line TVG_INFO_SHIFT_MARKER;
       let s = s\<lparr>epgTimeShift := decimal_hours_to_seconds strTvgShift\<rparr>;
       strCatchupCorrection \<leftarrow> ReadMarkerValue line CATCHUP_CORRECTION;
       let s = (if strCatchupCorrection \<noteq> []
                then s\<lparr>catchupCorrectionSecs := decimal_hours_to_seconds strCatchupCorrection\<rparr>
                else s);
       strCatchup \<leftarrow> ReadMarkerValue line CATCHUP;
       let s = (if strCatchup = ''xc'' then s\<lparr>xeevCatchup := True\<rparr> else s);
       strCatchup \<leftarrow> (if strCatchup = [] then ReadMarkerValue line CATCHUP_TYPE else Some strCatchup);
       strCatchupDays \<leftarrow> ReadMarkerValue line CATCHUP_DAYS;
       strCatchupSource \<leftarrow> ReadMarkerValue line CATCHUP_SOURCE;
       tvgUrl \<leftarrow> ReadMarkerValue line TVG_URL_MARKER;
       tvgUrl \<leftarrow> (if tvgUrl = [] then ReadMarkerValue line TVG_URL_OTHER_MARKER else Some tvgUrl);
       Some (s\<lparr>this := (this s)
                 \<lparr>m_m3uHeaderStrings :=
                    \<lparr>m_catchup = strCatchup, m_catchupDays = strCatchupDays,
                       m_catchupSource = strCatchupSource\<rparr>,
                  settings := (settings (this s))\<lparr>TvgUrl := tvgUrl\<rparr>\<rparr>\<rparr>)
     }"

text \<open>\<open>PlaylistLoader::ParseAndAddChannelGroups\<close> (lines 461-482).\<close>

fun add_channel_groups ::
  "externals \<Rightarrow> bool \<Rightarrow> string list \<Rightarrow> int list \<times> ChannelGroup list \<Rightarrow> int list \<times> ChannelGroup list" where
  "add_channel_groups ext isRadio [] (groupIdList, groups) = (groupIdList, groups)"
| "add_channel_groups ext isRadio (name # rest) (groupIdList, groups) =
     (let group = (DefaultChannelGroup ext)\<lparr>groupName := UnknownToUTF8 ext name, groupRadio := isRadio\<rparr>
      in if CheckChannelGroupAllowed ext group
         then (let (uniqueGroupId, groups) = AddChannelGroup ext group groups
               in add_channel_groups ext isRadio rest (groupIdList @ [uniqueGroupId], groups))
         else add_channel_groups ext isRadio rest (groupIdList, groups))"

definition ParseAndAddChannelGroups :: "externals \<Rightarrow> string \<Rightarrow> bool \<Rightarrow> load_state \<Rightarrow> load_state" where
  "ParseAndAddChannelGroups ext groupNamesListString isRadio s =
     (let (groupIdList, groups) =
            add_channel_groups ext isRadio (getlines CHR '';'' groupNamesListString)
              (currentChannelGroupIdList s, m_channelGroups (this s))
      in s\<lparr>currentChannelGroupIdList := groupIdList, this := (this s)\<lparr>m_channelGroups := groups\<rparr>\<rparr>)"

text \<open>\<open>PlaylistLoader::ParseSinglePropertyIntoChannel\<close> (lines 484-513).\<close>

definition ParseSinglePropertyIntoChannel :: "string \<Rightarrow> string \<Rightarrow> load_state \<Rightarrow> load_state throws" where
  "ParseSinglePropertyIntoChannel line markerName s =
     do {
       v \<leftarrow> ReadMarkerValue line markerName;
       (case find_ch v CHR ''='' 0 of
          None \<Rightarrow> Some s
        | Some pos \<Rightarrow>
            do {
              prop \<leftarrow> substr_n v 0 pos;
              let prop = ToLower prop;
              propValue \<leftarrow> substr v (pos + 1);
              let addProperty =
                (if markerName = EXTVLCOPT_DASH_MARKER then prop = ''http-reconnect''
                 else if markerName = EXTVLCOPT_MARKER
                   then prop = ''http-user-agent'' \<or> prop = ''http-referrer'' \<or> prop = ''program''
                 else True);
              let prop =
                (if markerName \<noteq> EXTVLCOPT_DASH_MARKER \<and> markerName \<noteq> EXTVLCOPT_MARKER \<and>
                    markerName = KODIPROP_MARKER \<and>
                    (prop = ''inputstreamaddon'' \<or> prop = ''inputstreamclass'')
                 then PVR_STREAM_PROPERTY_INPUTSTREAM else prop);
              let s = (if addProperty then s\<lparr>tmpChannel := AddProperty prop propValue (tmpChannel s)\<rparr> else s);
              Some (s\<lparr>this := Log LEVEL_DEBUG Found_Property (this s)\<rparr>)
            })
     }"

text \<open>Lines 137-153: an \<open>#EXTINF\<close> line.\<close>

definition load_info_line :: "externals \<Rightarrow> string \<Rightarrow> load_state \<Rightarrow> load_state throws" where
  "load_info_line ext line s =
     do {
       let s = s\<lparr>tmpChannel := (tmpChannel s)\<lparr>GetChannelNumber := GetCurrentChannelNumber ext (m_channels (this s))\<rparr>\<rparr>;
       let s = s\<lparr>currentChannelGroupIdList := []\<rparr>;
       let s = s\<lparr>isMediaEntry := (find_str line MEDIA \<noteq> None \<or> find_str line MEDIA_DIR \<noteq> None \<or>
                                   find_str line MEDIA_SIZE \<noteq> None)\<rparr>;
       (groupNamesListString, st) \<leftarrow>
         ParseIntoChannel ext (settings (this s)) (m_m3uHeaderStrings (this s)) line
           (epgTimeShift s) (catchupCorrectionSecs s) (xeevCatchup s)
           \<lparr>p_channel = tmpChannel s, p_mediaEntry = tmpMediaEntry s,
            p_groupIdList = currentChannelGroupIdList s, p_providers = m_providers (this s)\<rparr>;
       let s = s\<lparr>tmpChannel := p_channel st, tmpMediaEntry := p_mediaEntry st,
                 currentChannelGroupIdList := p_groupIdList st,
                 this := (this s)\<lparr>m_providers := p_providers st\<rparr>\<rparr>;
       Some (if groupNamesListString \<noteq> []
             then (ParseAndAddChannelGroups ext groupNamesListString (IsRadio (tmpChannel s)) s)
                    \<lparr>channelHadGroups := True\<rparr>
             else s)
     }"

text \<open>Lines 180-211: the line with the address ends the entry.\<close>

definition commit_entry :: "externals \<Rightarrow> string \<Rightarrow> load_state \<Rightarrow> load_state" where
  "commit_entry ext line s =
     (let s = s\<lparr>this := Log LEVEL_DEBUG Adding_Channel (this s)\<rparr>;
          s =
            (if (isRealTime s \<or> \<not> IsMediaEnabled (settings (this s)) \<or>
                 \<not> ShowVodAsRecordings (settings (this s))) \<and> \<not> isMediaEntry s
             then
               (let s = s\<lparr>tmpChannel := AddProperty PVR_STREAM_PROPERTY_ISREALTIMESTREAM ''true'' (tmpChannel s)\<rparr>;
                    channel = (tmpChannel s)\<lparr>GetStreamURL := line\<rparr>;
                    channel = ConfigureCatchupMode ext channel;
                    (added, channels, groups) =
                      AddChannel ext channel (currentChannelGroupIdList s) (channelHadGroups s)
                        (m_channels (this s), m_channelGroups (this s));
                    s = s\<lparr>this := (this s)\<lparr>m_channels := channels, m_channelGroups := groups\<rparr>\<rparr>
                in if \<not> added then s\<lparr>this := Log LEVEL_DEBUG Not_Adding_Channel (this s)\<rparr> else s)
             else
               (let entry = UpdateFrom (tmpChannel s) (tmpMediaEntry s);
                    entry = entry\<lparr>mediaStreamURL := line\<rparr>;
                    (added, media) = AddMediaEntry ext entry (m_media (this s));
                    s = s\<lparr>this := (this s)\<lparr>m_media := media\<rparr>\<rparr>
                in if \<not> added then s\<lparr>this := Log LEVEL_DEBUG Could_Not_Add_Media (this s)\<rparr> else s))
      in s\<lparr>tmpChannel := ResetChannel ext (tmpChannel s),
            tmpMediaEntry := ResetMediaEntry ext (tmpMediaEntry s),
            isRealTime := True, isMediaEntry := False, channelHadGroups := False\<rparr>)"

text \<open>
  Lines 137-211: the dispatch on the marker that starts the line. \<open>line[0]\<close> of an empty
  string is the null character that ends it.
\<close>

definition dispatch_line :: "externals \<Rightarrow> string \<Rightarrow> load_state \<Rightarrow> load_state throws" where
  "dispatch_line ext line s =
     (if StartsWith line M3U_INFO_MARKER then load_info_line ext line s
      else if StartsWith line KODIPROP_MARKER then ParseSinglePropertyIntoChannel line KODIPROP_MARKER s
      else if StartsWith line EXTVLCOPT_MARKER then ParseSinglePropertyIntoChannel line EXTVLCOPT_MARKER s
      else if StartsWith line EXTVLCOPT_DASH_MARKER
        then ParseSinglePropertyIntoChannel line EXTVLCOPT_DASH_MARKER s
      else if StartsWith line M3U_GROUP_MARKER then
        do {
          groupNamesListString \<leftarrow> ReadMarkerValue line M3U_GROUP_MARKER;
          Some (if groupNamesListString \<noteq> []
                then (ParseAndAddChannelGroups ext groupNamesListString (IsRadio (tmpChannel s)) s)
                       \<lparr>channelHadGroups := True\<rparr>
                else s)
        }
      else if StartsWith line PLAYLIST_TYPE_MARKER then
        do {
          playlistType \<leftarrow> ReadMarkerValue line PLAYLIST_TYPE_MARKER;
          Some (if playlistType = ''VOD'' then s\<lparr>isRealTime := False\<rparr> else s)
        }
      else if (case line of [] \<Rightarrow> CHR 0x00 | c # _ \<Rightarrow> c) \<noteq> CHR ''#''
        then Some (commit_entry ext line s)
      else Some s)"

text \<open>Lines 80-81: a line of the playlist, trimmed.\<close>

definition trim_line :: "string \<Rightarrow> string" where
  "trim_line raw =
     (let line = TrimRight raw [CHR '' '', CHR 0x09, CHR 0x0D, CHR 0x0A]
      in TrimLeft line [CHR '' '', CHR 0x09])"

text \<open>Lines 92-93: the byte order mark of UTF-8 is taken off the first line.\<close>

definition without_bom :: "string \<Rightarrow> string" where
  "without_bom line = (if Left line 3 = [CHR 0xEF, CHR 0xBB, CHR 0xBF] then drop 3 line else line)"

text \<open>Lines 78-212: the body of the loop for one line of the playlist.\<close>

definition load_line :: "externals \<Rightarrow> string \<Rightarrow> load_state \<Rightarrow> load_state throws" where
  "load_line ext raw s =
     (let line = trim_line raw;
          s = s\<lparr>this := Log LEVEL_DEBUG M3U_Line_Read (this s)\<rparr>
      in if line = [] then Some s
         else if isFirstLine s then
           (let s = s\<lparr>isFirstLine := False\<rparr>;
                line = without_bom line
            in if StartsWith line M3U_START_MARKER then read_m3u_header ext line s
               else dispatch_line ext line (s\<lparr>this := Log LEVEL_ERROR Missing_Start_Marker (this s)\<rparr>))
         else dispatch_line ext line s)"

fun load_lines :: "externals \<Rightarrow> string list \<Rightarrow> load_state \<Rightarrow> load_state throws" where
  "load_lines ext [] s = Some s"
| "load_lines ext (raw # rest) s = load_line ext raw s \<bind> load_lines ext rest"

text \<open>
  \<open>PlaylistLoader::LoadPlayList\<close> (lines 41-234): the result of the call with the loader
  after it. The clock is left out.
\<close>

definition LoadPlayList :: "externals \<Rightarrow> loader \<Rightarrow> (bool \<times> loader) throws" where
  "LoadPlayList ext this0 =
     (let this1 = Log LEVEL_DEBUG Playlist_Load_Start this0 in
      if m_m3uLocation this1 = [] then Some (False, Log LEVEL_ERROR Path_Not_Configured this1)
      else
        (let useM3UCache =
               (if M3URefreshMode (settings this1) \<noteq> REFRESH_DISABLED then False
                else UseM3UCache (settings this1))
         in case GetCachedFileContents ext (m_m3uLocation this1) useM3UCache of
              None \<Rightarrow> Some (False, Log LEVEL_ERROR Unable_To_Load_File this1)
            | Some playlistContent \<Rightarrow>
                do {
                  s \<leftarrow> load_lines ext (getlines CHR 0x0A playlistContent)
                         \<lparr>this = this1, isFirstLine = True, isRealTime = True, isMediaEntry = False,
                          epgTimeShift = 0,
                          catchupCorrectionSecs = CatchupCorrectionSecs (settings this1),
                          currentChannelGroupIdList = [], channelHadGroups = False,
                          xeevCatchup = False, tmpChannel = DefaultChannel ext,
                          tmpMediaEntry = DefaultMediaEntry ext\<rparr>;
                  let this2 = Log LEVEL_INFO Playlist_Loaded (this s);
                  let this2 =
                    (if GetChannelsAmount this2 = 0 \<and> GetNumMedia this2 = 0
                     then Log LEVEL_ERROR Unable_To_Load_Channels_Or_Media this2
                     else this2);
                  let this2 = Log LEVEL_INFO Loaded_Channels this2;
                  let this2 = Log LEVEL_INFO Loaded_Channel_Groups this2;
                  let this2 = Log LEVEL_INFO Loaded_Providers this2;
                  let this2 = Log LEVEL_INFO Loaded_Media this2;
                  Some (True, this2)
                }))"

section \<open>The playability of a programme\<close>

datatype PVR_ERROR = PVR_ERROR_NO_ERROR | PVR_ERROR_NOT_IMPLEMENTED | PVR_ERROR_FAILED

record PVREPGTag =
  GetUniqueChannelId :: nat
  GetStartTime :: int
  GetEndTime :: int

record EpgEntry =
  GetCatchupId :: string

text \<open>
  What \<open>IsEPGTagPlayable\<close> asks of the rest of the add-on: the settings, the lookup of a
  channel by its identifier (the flag that it was found, with the channel the call
  leaves in its second argument), the test \<open>Channel::IsCatchupSupported\<close>, and the lookup
  of the guide entry of a channel at a time (\<open>None\<close> for a null pointer).
\<close>

record pvr_data =
  pvr_settings :: Settings
  GetChannel :: "nat \<Rightarrow> Channel \<Rightarrow> bool \<times> Channel"
  IsCatchupSupported :: "Channel \<Rightarrow> bool"
  GetEPGEntry :: "Channel \<Rightarrow> int \<Rightarrow> EpgEntry option"

text \<open>
  Modelled from the spec: \<open>Channel::IgnoreCatchupDays\<close> and
  \<open>Channel::GetCatchupDaysInSeconds\<close> are missing from the sources. Section 4.6 of the
  specification: the day window is ignored when the catchup days are the constant
  \<open>IGNORE_CATCHUP_DAYS\<close>, and it is \<open>catchupDays\<close> times 86400 seconds long.
\<close>

definition IgnoreCatchupDays :: "externals \<Rightarrow> Channel \<Rightarrow> bool" where
  "IgnoreCatchupDays ext channel = (GetCatchupDays channel = IGNORE_CATCHUP_DAYS ext)"

definition GetCatchupDaysInSeconds :: "Channel \<Rightarrow> int" where
  "GetCatchupDaysInSeconds channel = GetCatchupDays channel * 86400"

text \<open>
  \<open>PVRIptvData::IsEPGTagPlayable\<close> (PVRIptvData.cpp, lines 333-364), at the time \<open>now\<close>
  of the clock: the result of the call, with the flag \<open>bIsPlayable\<close> of the caller after
  it. The times are \<open>time_t\<close> values of 64 bits, far from overflow in \<open>now - seconds\<close>.
\<close>

definition IsEPGTagPlayable ::
  "externals \<Rightarrow> pvr_data \<Rightarrow> int \<Rightarrow> PVREPGTag \<Rightarrow> bool \<Rightarrow> PVR_ERROR \<times> bool" where
  "IsEPGTagPlayable ext d now tag bIsPlayable =
     (if \<not> IsCatchupEnabled (pvr_settings d) then (PVR_ERROR_NOT_IMPLEMENTED, bIsPlayable)
      else
        (let (found, channel) = GetChannel d (GetUniqueChannelId tag) (DefaultChannel ext);
             bIsPlayable = (found \<and> IsCatchupEnabled (pvr_settings d) \<and> IsCatchupSupported d channel)
         in if IgnoreCatchupDays ext channel then
              (let epgEntry = GetEPGEntry d channel (GetStartTime tag);
                   hasCatchupId = (case epgEntry of None \<Rightarrow> False | Some e \<Rightarrow> GetCatchupId e \<noteq> [])
               in (PVR_ERROR_NO_ERROR, bIsPlayable \<and> hasCatchupId))
            else
              (PVR_ERROR_NO_ERROR,
               bIsPlayable \<and> GetStartTime tag < now \<and>
               GetStartTime tag \<ge> now - GetCatchupDaysInSeconds channel \<and>
               (\<not> CatchupOnlyOnFinishedProgrammes (pvr_settings d) \<or> GetEndTime tag < now))))"

section \<open>A concrete environment for evaluation\<close>

text \<open>
  An instance of the parameters, on which the definitions can be run: text that is
  already UTF-8, \<open>-1\<close> for \<open>IGNORE_CATCHUP_DAYS\<close>, stores that append, and a file cache
  that holds nothing.
\<close>

definition example_channel :: Channel where
  "example_channel =
     \<lparr>IsRadio = False, GetUniqueId = 0, GetChannelNumber = 0, GetSubChannelNumber = 0,
      GetChannelName = [], GetTvgId = [], GetTvgName = [], GetTvgShift = 0, GetIconPath = [],
      GetStreamURL = [], HasCatchup = False, GetCatchupMode = DISABLED, GetCatchupDays = 0,
      GetCatchupSource = [], IsCatchupTSStream = False, GetCatchupCorrectionSecs = 0,
      GetProviderUniqueId = - 1, GetProperties = []\<rparr>"

definition example_media_entry :: MediaEntry where
  "example_media_entry =
     \<lparr>fromChannel = None, GetDirectory = [], GetSizeInBytes = 0, mediaStreamURL = []\<rparr>"

definition example_externals :: externals where
  "example_externals =
     \<lparr>UnknownToUTF8 = (\<lambda>s. s), IGNORE_CATCHUP_DAYS = - 1,
      PROVIDER_STRING_TOKEN_SEPARATOR = CHR '','',
      IconPathFromTvgLogo = (\<lambda>logo name. logo),
      DefaultChannel = example_channel, DefaultMediaEntry = example_media_entry,
      DefaultChannelGroup = \<lparr>groupUniqueId = 0, groupName = [], groupRadio = False, members = []\<rparr>,
      ConfigureCatchupMode = (\<lambda>c. c),
      ResetChannel = (\<lambda>c. example_channel), ResetMediaEntry = (\<lambda>m. example_media_entry),
      GetCachedFileContents = (\<lambda>location useCache. None),
      GetCurrentChannelNumber = (\<lambda>cs. int (length cs) + 1),
      AddChannel = (\<lambda>c ids hadGroups (cs, gs). (True, cs @ [c], gs)),
      AddMediaEntry = (\<lambda>m ms. (True, ms @ [m])),
      CheckChannelGroupAllowed = (\<lambda>g. True),
      AddChannelGroup = (\<lambda>g gs. (int (length gs) + 1, gs @ [g]))\<rparr>"

definition example_settings :: Settings where
  "example_settings =
     \<lparr>M3ULocation = ''/playlist.m3u'', M3URefreshMode = REFRESH_DISABLED, UseM3UCache = False,
      CatchupCorrectionSecs = 0, NumberChannelsByM3uOrderOnly = False, LogoPathType = REMOTE_PATH,
      UseLocalLogosOnlyIgnoreM3U = False, CatchupDays = 3, HasDefaultProviderName = False,
      DefaultProviderName = [], IsMediaEnabled = True, ShowVodAsRecordings = True,
      IsCatchupEnabled = True, CatchupOnlyOnFinishedProgrammes = False, TvgUrl = []\<rparr>"

definition no_header_defaults :: M3uHeaderStrings where
  "no_header_defaults = \<lparr>m_catchup = [], m_catchupDays = [], m_catchupSource = []\<rparr>"

definition example_parse_state :: parse_state where
  "example_parse_state =
     \<lparr>p_channel = example_channel, p_mediaEntry = example_media_entry, p_groupIdList = [],
      p_providers = []\<rparr>"

definition example_loader :: loader where
  "example_loader =
     \<lparr>m_m3uLocation = ''/playlist.m3u'', m_m3uHeaderStrings = no_header_defaults,
      m_channels = [], m_channelGroups = [], m_providers = [], m_media = [],
      settings = example_settings, logged = []\<rparr>"

text \<open>
  A file cache that holds one playlist, and a playlist that is a header line and an empty
  line, both ended by carriage return and line feed.
\<close>

definition with_playlist :: "string \<Rightarrow> externals \<Rightarrow> externals" where
  "with_playlist content ext = ext\<lparr>GetCachedFileContents := (\<lambda>location useCache. Some content)\<rparr>"

definition header_only_playlist :: string where
  "header_only_playlist =
     ''#EXTM3U url-tvg=\"http://e/x.xml\" catchup=\"shift\"'' @ [CHR 0x0D, CHR 0x0A, CHR 0x0D, CHR 0x0A]"

text \<open>
  A channel store that holds one channel, with identifier 7, catchup and two catchup
  days; a channel supports catchup when it has catchup; the guide has no entries.
\<close>

definition example_pvr_data :: pvr_data where
  "example_pvr_data =
     \<lparr>pvr_settings = example_settings,
      GetChannel = (\<lambda>uid c. if uid = 7
                             then (True, example_channel\<lparr>GetUniqueId := 7, HasCatchup := True,
                                           GetCatchupMode := SHIFT, GetCatchupDays := 2\<rparr>)
                             else (False, c)),
      IsCatchupSupported = HasCatchup,
      GetEPGEntry = (\<lambda>c t. None)\<rparr>"

section \<open>Properties of the string primitives\<close>

lemma index_of_None: "index_of c s = None \<longleftrightarrow> c \<notin> set s"
  by (induction s) auto

lemma index_of_Some:
  "index_of c s = Some i \<Longrightarrow> i = length (takeWhile (\<lambda>x. x \<noteq> c) s) \<and> i < length s \<and> s ! i = c"
  by (induction s arbitrary: i) (auto split: if_splits)

lemma take_length_takeWhile: "take (length (takeWhile P s)) s = takeWhile P s"
  by (induction s) auto

lemma index_of_takeWhile:
  "take (case index_of c s of None \<Rightarrow> length s | Some i \<Rightarrow> i) s = takeWhile (\<lambda>x. x \<noteq> c) s"
proof (cases "index_of c s")
  case None
  then have "c \<notin> set s" by (simp add: index_of_None)
  then have tw: "takeWhile (\<lambda>x. x \<noteq> c) s = s" by (induction s) auto
  show ?thesis unfolding None tw by simp
next
  case (Some i)
  then have "i = length (takeWhile (\<lambda>x. x \<noteq> c) s)" by (simp add: index_of_Some)
  with Some show ?thesis by (simp add: take_length_takeWhile)
qed

lemma find_ch_0: "find_ch s c 0 = index_of c s"
  by (cases "index_of c s") (simp_all add: find_ch_def)

lemma find_ch_0_None: "find_ch s c 0 = None \<longleftrightarrow> c \<notin> set s"
  by (simp add: find_ch_0 index_of_None)

lemma find_ch_0_Some:
  "find_ch s c 0 = Some k \<Longrightarrow> k = length (takeWhile (\<lambda>x. x \<noteq> c) s) \<and> k < length s \<and> s ! k = c"
  by (simp add: find_ch_0 index_of_Some)

lemma rfind_ch_None: "rfind_ch s c = None \<longleftrightarrow> c \<notin> set s"
  by (simp add: rfind_ch_def index_of_None)

text \<open>The last occurrence: its index, and the text behind it.\<close>

lemma rfind_ch_Some:
  assumes "rfind_ch s c = Some q"
  shows "q < length s" and "s ! q = c"
    and "drop (q + 1) s = rev (takeWhile (\<lambda>x. x \<noteq> c) (rev s))"
proof -
  from assms obtain i where i: "index_of c (rev s) = Some i" and q: "q = length s - 1 - i"
    by (auto simp: rfind_ch_def)
  from index_of_Some [OF i]
  have il: "i = length (takeWhile (\<lambda>x. x \<noteq> c) (rev s))" and ilt: "i < length s" and ic: "rev s ! i = c"
    by auto
  from ilt q show "q < length s" by simp
  from ilt q ic show "s ! q = c" by (simp add: rev_nth)
  have "q + 1 = length s - i" using ilt q by simp
  then have "drop (q + 1) s = rev (take i (rev s))"
    by (simp add: rev_take)
  also have "take i (rev s) = takeWhile (\<lambda>x. x \<noteq> c) (rev s)"
    by (simp add: il take_length_takeWhile)
  finally show "drop (q + 1) s = rev (takeWhile (\<lambda>x. x \<noteq> c) (rev s))" .
qed

lemma substr_Suc: "n < length s \<Longrightarrow> substr s (Suc n) = Some (drop (Suc n) s)"
  by (simp add: substr_def)

lemma substr_n_Suc: "n < length s \<Longrightarrow> substr_n s (Suc n) k = Some (take k (drop (Suc n) s))"
  by (simp add: substr_n_def)

text \<open>The value cut out between a position and the next terminator.\<close>

lemma substr_n_find_ch:
  assumes "pos \<le> length s"
  shows "substr_n s pos ((case find_ch s c pos of None \<Rightarrow> length s | Some e \<Rightarrow> e) - pos)
         = Some (takeWhile (\<lambda>x. x \<noteq> c) (drop pos s))"
proof -
  have "(case find_ch s c pos of None \<Rightarrow> length s | Some e \<Rightarrow> e) - pos
        = (case index_of c (drop pos s) of None \<Rightarrow> length (drop pos s) | Some i \<Rightarrow> i)"
    by (cases "index_of c (drop pos s)") (simp_all add: find_ch_def)
  with assms show ?thesis
    by (simp add: substr_n_def index_of_takeWhile)
qed

lemma StartsWith_Trim_mem:
  assumes "StartsWith (Trim s) [c]"
  shows "c \<in> set s"
proof -
  from assms obtain r where "Trim s = c # r"
    by (auto simp: StartsWith_def prefix_def)
  then have "c \<in> set (Trim s)" by simp
  also have "set (Trim s) \<subseteq> set s"
    by (auto simp: Trim_def dest!: set_dropWhileD)
  finally show ?thesis .
qed

text \<open>Truncation toward zero: the integer next to the number on the side of zero.\<close>

lemma double_to_int_truncates:
  assumes "- (2 ^ 31) - 1 < q" "q < 2 ^ 31"
  shows "double_to_int (Finite q) = (if 0 \<le> q then \<lfloor>q\<rfloor> else \<lceil>q\<rceil>)"
proof (cases "0 \<le> q")
  case True
  with assms have "0 \<le> \<lfloor>q\<rfloor>" "\<lfloor>q\<rfloor> < 2 ^ 31" by (simp_all add: floor_less_iff)
  with True show ?thesis by (simp add: double_to_int_def)
next
  case False
  with assms have "- (2 ^ 31) \<le> \<lceil>q\<rceil>" "\<lceil>q\<rceil> \<le> 0"
    by (simp_all add: le_ceiling_iff ceiling_le_iff)
  with False show ?thesis by (simp add: double_to_int_def)
qed

text \<open>The numbers that are too large for an \<open>int\<close> are cut or replaced as on the platform.\<close>

lemma atoi_out_of_range:
  "atoi ''4294967295'' = - 1 \<and> atoi ''99999999999'' = 1215752191 \<and>
   strtoll ''9223372036854775808'' = 9223372036854775807"
  by code_simp

lemma tvg_id_out_of_range: "int_to_string (atoi ''99999999999 tvg-name'') = ''1215752191''"
  by code_simp

text \<open>The forms that \<open>atof\<close> reads, and the seconds that come of them.\<close>

lemma atof_forms:
  "atof ''1e1'' = Finite 10 \<and> atof '' -2.5E-1x'' = Finite (- 1 / 4) \<and> atof ''0x1.8p1'' = Finite 3 \<and>
   atof ''-Infinity'' = MinusInfinity \<and> atof ''nan'' = NaN \<and>
   atof ''abc'' = Finite 0 \<and> atof [] = Finite 0"
  by code_simp

lemma decimal_hours_to_seconds_forms:
  "decimal_hours_to_seconds ''1e1'' = 36000 \<and> decimal_hours_to_seconds ''-1.5'' = - 5400 \<and>
   decimal_hours_to_seconds ''-0.9999'' = - 3599 \<and> decimal_hours_to_seconds ''0x10'' = 57600 \<and>
   decimal_hours_to_seconds [] = 0 \<and> decimal_hours_to_seconds ''inf'' = - 2147483648 \<and>
   decimal_hours_to_seconds ''nan'' = - 2147483648 \<and>
   decimal_hours_to_seconds ''-596523.3'' = - 2147483648"
  by code_simp

section \<open>The marker reader meets its contract\<close>

text \<open>
  \<open>after_first_occurrence\<close> is what its name says: without an occurrence of the marker
  there is no result, and a result is the text behind the occurrence that starts first.
\<close>

lemma after_first_occurrence_None:
  "after_first_occurrence marker line = None \<longleftrightarrow> (\<forall>pre rest. line \<noteq> pre @ marker @ rest)"
proof (induction line)
  case Nil
  then show ?case by auto
next
  case (Cons c cs)
  show ?case
  proof (cases "prefix marker (c # cs)")
    case True
    then obtain rest where "c # cs = [] @ marker @ rest" by (auto simp: prefix_def)
    then have "\<exists>pre rest. c # cs = pre @ marker @ rest" by blast
    moreover from True have "after_first_occurrence marker (c # cs) \<noteq> None" by simp
    ultimately show ?thesis by blast
  next
    case False
    then have step: "after_first_occurrence marker (c # cs) = after_first_occurrence marker cs"
      by simp
    show ?thesis
    proof
      assume "after_first_occurrence marker (c # cs) = None"
      with step Cons.IH have none: "\<And>pre rest. cs \<noteq> pre @ marker @ rest" by simp
      show "\<forall>pre rest. c # cs \<noteq> pre @ marker @ rest"
      proof (intro allI notI)
        fix pre rest
        assume e: "c # cs = pre @ marker @ rest"
        from False e have "pre \<noteq> []" by (auto simp: prefix_def)
        with e obtain pre' where "cs = pre' @ marker @ rest"
          by (cases pre) auto
        with none show False by blast
      qed
    next
      assume every: "\<forall>pre rest. c # cs \<noteq> pre @ marker @ rest"
      have "cs \<noteq> pre @ marker @ rest" for pre rest
      proof
        assume "cs = pre @ marker @ rest"
        then have "c # cs = (c # pre) @ marker @ rest" by simp
        with every show False by blast
      qed
      with step Cons.IH show "after_first_occurrence marker (c # cs) = None" by simp
    qed
  qed
qed

lemma after_first_occurrence_Some:
  assumes "after_first_occurrence marker line = Some rest"
  shows "\<exists>pre. line = pre @ marker @ rest \<and>
               (\<forall>pre' rest'. line = pre' @ marker @ rest' \<longrightarrow> length pre \<le> length pre')"
  using assms
proof (induction line)
  case Nil
  then show ?case by (simp split: if_splits)
next
  case (Cons c cs)
  show ?case
  proof (cases "prefix marker (c # cs)")
    case True
    with Cons.prems have rest: "rest = drop (length marker) (c # cs)" by simp
    from True have "c # cs = marker @ rest"
      unfolding rest by (metis append_eq_conv_conj prefix_def)
    then have "c # cs = [] @ marker @ rest \<and>
        (\<forall>pre' rest'. c # cs = pre' @ marker @ rest' \<longrightarrow> length ([] :: string) \<le> length pre')"
      by simp
    then show ?thesis by blast
  next
    case False
    with Cons.prems have "after_first_occurrence marker cs = Some rest" by simp
    from Cons.IH [OF this] obtain pre where pre: "cs = pre @ marker @ rest"
      and least: "\<And>pre' rest'. cs = pre' @ marker @ rest' \<Longrightarrow> length pre \<le> length pre'"
      by blast
    have "length (c # pre) \<le> length pre'" if e: "c # cs = pre' @ marker @ rest'" for pre' rest'
    proof -
      from False e have "pre' \<noteq> []" by (auto simp: prefix_def)
      with e obtain p where p: "pre' = c # p" "cs = p @ marker @ rest'"
        by (cases pre') auto
      from least [OF p(2)] p(1) show ?thesis by simp
    qed
    moreover from pre have "c # cs = (c # pre) @ marker @ rest" by simp
    ultimately show ?thesis by blast
  qed
qed

text \<open>What \<open>find\<close> returns is where that text starts.\<close>

lemma find_str_None:
  "find_str line marker = None \<Longrightarrow> after_first_occurrence marker line = None"
  by (induction line) (auto split: if_splits)

lemma find_str_Some:
  "find_str line marker = Some i \<Longrightarrow>
     after_first_occurrence marker line = Some (drop (i + length marker) line) \<and>
     i + length marker \<le> length line"
proof (induction line arbitrary: i)
  case Nil
  then show ?case by (simp split: if_splits)
next
  case (Cons c cs)
  show ?case
  proof (cases "prefix marker (c # cs)")
    case True
    with Cons.prems show ?thesis by (auto dest: prefix_length_le)
  next
    case False
    with Cons.prems obtain j where j: "find_str cs marker = Some j" "i = Suc j"
      by auto
    from Cons.IH [OF j(1)] False j(2) show ?thesis by simp
  qed
qed

text \<open>The reader returns the value of the contract, and never throws.\<close>

lemma ReadMarkerValue_Some:
  "ReadMarkerValue line markerName = Some (marker_value_spec line markerName)"
proof (cases "find_str line markerName")
  case None
  then show ?thesis
    by (simp add: ReadMarkerValue_def marker_value_spec_def find_str_None)
next
  case (Some i)
  let ?ms = "i + length markerName"
  from find_str_Some [OF Some]
  have rest: "after_first_occurrence markerName line = Some (drop ?ms line)"
    and le: "?ms \<le> length line" by simp_all
  show ?thesis
  proof (cases "?ms < length line")
    case False
    with le have "drop ?ms line = []" by simp
    with Some rest False show ?thesis
      by (simp add: ReadMarkerValue_def marker_value_spec_def)
  next
    case True
    then have dr: "drop ?ms line = line ! ?ms # drop (Suc ?ms) line"
      by (simp add: Cons_nth_drop_Suc)
    show ?thesis
    proof (cases "line ! ?ms = dquote")
      case q: True
      from True have "Suc ?ms \<le> length line" by simp
      from substr_n_find_ch [OF this, of dquote] Some rest True q dr show ?thesis
        by (simp add: ReadMarkerValue_def marker_value_spec_def Let_def)
    next
      case q: False
      from substr_n_find_ch [OF le, of "CHR '' ''"] Some rest True q dr show ?thesis
        by (simp add: ReadMarkerValue_def marker_value_spec_def Let_def)
    qed
  qed
qed

text \<open>
  Claim C6. For every line and marker name, \<open>ReadMarkerValue\<close> returns, without throwing,
  the value behind the first occurrence of the marker name: the text up to the next
  double quote when a double quote follows the marker, up to the next space otherwise,
  and up to the end of the line when that terminator is missing; it returns the empty
  string when the marker is absent or nothing follows it.
\<close>

theorem ReadMarkerValue_contract:
  "ReadMarkerValue line markerName =
     Some (case after_first_occurrence markerName line of
             None \<Rightarrow> []
           | Some [] \<Rightarrow> []
           | Some (c # cs) \<Rightarrow>
               if c = dquote then takeWhile (\<lambda>x. x \<noteq> dquote) cs
               else takeWhile (\<lambda>x. x \<noteq> CHR '' '') (c # cs))"
proof (cases "after_first_occurrence markerName line")
  case None
  then have "marker_value_spec line markerName = []"
    by (simp add: marker_value_spec_def)
  with None show ?thesis by (simp add: ReadMarkerValue_Some)
next
  case (Some rest)
  then have "marker_value_spec line markerName = value_up_to_terminator rest"
    by (simp add: marker_value_spec_def)
  with Some show ?thesis
    by (cases rest) (simp_all add: ReadMarkerValue_Some)
qed

theorem ReadMarkerValue_contract_witness:
  \<open>ReadMarkerValue ''-1 tvg-name="A,B" radio=true'' ''tvg-name='' = Some ''A,B'' \<and>
   ReadMarkerValue ''-1 tvg-name="A,B" radio=true'' ''radio='' = Some ''true'' \<and>
   ReadMarkerValue ''-1 tvg-name="A,B'' ''tvg-name='' = Some ''A,B'' \<and>
   ReadMarkerValue ''-1 tvg-name="A,B" radio=true'' ''tvg-id='' = Some [] \<and>
   ReadMarkerValue ''-1 tvg-name='' ''tvg-name='' = Some []\<close>
  by (simp add: ReadMarkerValue_contract dquote_def)

section \<open>The comma that ends the attribute section\<close>

lemma select_comma_no_quote:
  "rfind_ch line dquote = None \<Longrightarrow> select_comma line = Some (rfind_ch line CHR '','')"
  by (simp add: select_comma_def)

lemma select_comma_plain:
  assumes "rfind_ch line dquote = Some q" "\<not> StartsWith (Trim (drop (q + 1) line)) '',''"
  shows "select_comma line = Some (rfind_ch line CHR '','')"
proof -
  from rfind_ch_Some(1) [OF assms(1)] have "q + 1 \<le> length line" by simp
  with assms show ?thesis by (simp add: select_comma_def substr_def)
qed

lemma select_comma_relocated:
  assumes "rfind_ch line dquote = Some q" "StartsWith (Trim (drop (q + 1) line)) '',''"
  shows "select_comma line =
           Some (Some (q + 1 + length (takeWhile (\<lambda>x. x \<noteq> CHR '','') (drop (q + 1) line))))"
    and "q + 1 + length (takeWhile (\<lambda>x. x \<noteq> CHR '','') (drop (q + 1) line)) < length line"
proof -
  let ?tail = "drop (q + 1) line"
  let ?k = "length (takeWhile (\<lambda>x. x \<noteq> CHR '','') ?tail)"
  from rfind_ch_Some(1) [OF assms(1)] have q: "q + 1 \<le> length line" by simp
  from StartsWith_Trim_mem [OF assms(2)] have "CHR '','' \<in> set ?tail" .
  then obtain k where k: "find_ch ?tail CHR '','' 0 = Some k"
    by (cases "find_ch ?tail CHR '','' 0") (simp_all add: find_ch_0_None)
  from find_ch_0_Some [OF k] have kk: "k = ?k" and klt: "k < length ?tail" by simp_all
  from klt q show lt: "q + 1 + ?k < length line" using kk by simp
  from q assms k kk lt show "select_comma line = Some (Some (q + 1 + ?k))"
    by (simp add: select_comma_def substr_def Let_def)
qed

text \<open>Neither \<open>substr\<close> of lines 246 and 253 throws.\<close>

lemma select_comma_total: "\<exists>c. select_comma line = Some c"
proof (cases "rfind_ch line dquote")
  case None
  then show ?thesis by (simp add: select_comma_no_quote)
next
  case (Some q)
  then show ?thesis
    by (cases "StartsWith (Trim (drop (q + 1) line)) '',''")
       (simp_all add: select_comma_plain select_comma_relocated)
qed

lemma select_comma_bound: "select_comma line = Some (Some comma) \<Longrightarrow> comma < length line"
proof (cases "rfind_ch line dquote")
  case None
  assume "select_comma line = Some (Some comma)"
  with None have "rfind_ch line CHR '','' = Some comma" by (simp add: select_comma_no_quote)
  then show ?thesis by (rule rfind_ch_Some(1))
next
  case (Some q)
  assume a: "select_comma line = Some (Some comma)"
  show ?thesis
  proof (cases "StartsWith (Trim (drop (q + 1) line)) '',''")
    case True
    from select_comma_relocated [OF Some True] a show ?thesis by simp
  next
    case False
    from select_comma_plain [OF Some False] a have "rfind_ch line CHR '','' = Some comma" by simp
    then show ?thesis by (rule rfind_ch_Some(1))
  qed
qed

lemma select_comma_no_comma:
  assumes "CHR '','' \<notin> set line"
  shows "select_comma line = Some None"
proof -
  from assms have r: "rfind_ch line CHR '','' = None" by (simp add: rfind_ch_None)
  show ?thesis
  proof (cases "rfind_ch line dquote")
    case None
    with r show ?thesis by (simp add: select_comma_no_quote)
  next
    case (Some q)
    have "\<not> StartsWith (Trim (drop (q + 1) line)) '',''"
    proof
      assume "StartsWith (Trim (drop (q + 1) line)) '',''"
      then have "CHR '','' \<in> set (drop (q + 1) line)" by (rule StartsWith_Trim_mem)
      then have "CHR '','' \<in> set line" by (rule in_set_dropD)
      with assms show False by simp
    qed
    from select_comma_plain [OF Some this] r show ?thesis by simp
  qed
qed

section \<open>The steps of the channel builder, field by field\<close>

lemma parse_channel_number_cases:
  "\<exists>a b. parse_channel_number cfg s ch = Some (ch\<lparr>GetChannelNumber := a, GetSubChannelNumber := b\<rparr>)"
proof (cases "s \<noteq> [] \<and> \<not> NumberChannelsByM3uOrderOnly cfg")
  case False
  then have "parse_channel_number cfg s ch =
      Some (ch\<lparr>GetChannelNumber := GetChannelNumber ch, GetSubChannelNumber := GetSubChannelNumber ch\<rparr>)"
    by (auto simp: parse_channel_number_def)
  then show ?thesis by blast
next
  case True
  show ?thesis
  proof (cases "find_ch s CHR ''.'' 0")
    case None
    with True have "parse_channel_number cfg s ch =
        Some (ch\<lparr>GetChannelNumber := atoi s, GetSubChannelNumber := GetSubChannelNumber ch\<rparr>)"
      by (simp add: parse_channel_number_def)
    then show ?thesis by blast
  next
    case (Some found)
    from find_ch_0_Some [OF Some] have "found < length s" by simp
    with True Some show ?thesis
      by (simp add: parse_channel_number_def substr_def substr_n_def) blast
  qed
qed

lemma bind_parse_channel_number:
  "parse_channel_number cfg s ch \<bind> f = f (the (parse_channel_number cfg s ch))"
  using parse_channel_number_cases [of cfg s ch] by auto

lemma parse_channel_number_frame:
  "GetChannelName (the (parse_channel_number cfg s ch)) = GetChannelName ch"
  "HasCatchup (the (parse_channel_number cfg s ch)) = HasCatchup ch"
  "GetCatchupMode (the (parse_channel_number cfg s ch)) = GetCatchupMode ch"
  "IsCatchupTSStream (the (parse_channel_number cfg s ch)) = IsCatchupTSStream ch"
  "GetTvgShift (the (parse_channel_number cfg s ch)) = GetTvgShift ch"
  "GetCatchupSource (the (parse_channel_number cfg s ch)) = GetCatchupSource ch"
  "GetCatchupDays (the (parse_channel_number cfg s ch)) = GetCatchupDays ch"
  using parse_channel_number_cases [of cfg s ch] by auto

lemma if_Some_Some: "(if c then Some a else Some b) = Some (if c then a else b)"
  by simp

lemma set_icon_path_fields:
  "HasCatchup (set_icon_path ext cfg l n ch) = HasCatchup ch"
  "GetCatchupMode (set_icon_path ext cfg l n ch) = GetCatchupMode ch"
  "IsCatchupTSStream (set_icon_path ext cfg l n ch) = IsCatchupTSStream ch"
  "GetChannelName (set_icon_path ext cfg l n ch) = GetChannelName ch"
  "GetTvgShift (set_icon_path ext cfg l n ch) = GetTvgShift ch"
  "GetCatchupSource (set_icon_path ext cfg l n ch) = GetCatchupSource ch"
  "GetCatchupDays (set_icon_path ext cfg l n ch) = GetCatchupDays ch"
  by (simp_all add: set_icon_path_def)

lemma default_tvg_shift_fields:
  "HasCatchup (default_tvg_shift s e ch) = HasCatchup ch"
  "GetCatchupMode (default_tvg_shift s e ch) = GetCatchupMode ch"
  "IsCatchupTSStream (default_tvg_shift s e ch) = IsCatchupTSStream ch"
  "GetChannelName (default_tvg_shift s e ch) = GetChannelName ch"
  "GetTvgShift (default_tvg_shift s e ch) = (if s = [] then e else GetTvgShift ch)"
  "GetCatchupSource (default_tvg_shift s e ch) = GetCatchupSource ch"
  "GetCatchupDays (default_tvg_shift s e ch) = GetCatchupDays ch"
  by (simp_all add: default_tvg_shift_def)

lemma default_catchup_correction_fields:
  "HasCatchup (default_catchup_correction s e ch) = HasCatchup ch"
  "GetCatchupMode (default_catchup_correction s e ch) = GetCatchupMode ch"
  "IsCatchupTSStream (default_catchup_correction s e ch) = IsCatchupTSStream ch"
  "GetChannelName (default_catchup_correction s e ch) = GetChannelName ch"
  "GetTvgShift (default_catchup_correction s e ch) = GetTvgShift ch"
  "GetCatchupSource (default_catchup_correction s e ch) = GetCatchupSource ch"
  "GetCatchupDays (default_catchup_correction s e ch) = GetCatchupDays ch"
  by (simp_all add: default_catchup_correction_def)

lemma set_catchup_mode_fields:
  "HasCatchup (set_catchup_mode tok ch) =
     (if EqualsNoCase tok ''default'' \<or> EqualsNoCase tok ''append'' \<or>
         EqualsNoCase tok ''shift'' \<or> EqualsNoCase tok ''flussonic'' \<or>
         EqualsNoCase tok ''flussonic-hls'' \<or> EqualsNoCase tok ''flussonic-ts'' \<or>
         EqualsNoCase tok ''fs'' \<or> EqualsNoCase tok ''xc'' \<or> EqualsNoCase tok ''vod''
      then True else HasCatchup ch)"
  "GetCatchupMode (set_catchup_mode tok ch) =
     (if EqualsNoCase tok ''default'' then DEFAULT
      else if EqualsNoCase tok ''append'' then APPEND
      else if EqualsNoCase tok ''shift'' then SHIFT
      else if EqualsNoCase tok ''flussonic'' \<or> EqualsNoCase tok ''flussonic-hls'' \<or>
              EqualsNoCase tok ''flussonic-ts'' \<or> EqualsNoCase tok ''fs'' then FLUSSONIC
      else if EqualsNoCase tok ''xc'' then XTREAM_CODES
      else if EqualsNoCase tok ''vod'' then VOD
      else GetCatchupMode ch)"
  "IsCatchupTSStream (set_catchup_mode tok ch) =
     (if EqualsNoCase tok ''flussonic-ts'' \<or> EqualsNoCase tok ''fs'' then True
      else IsCatchupTSStream ch)"
  "GetChannelName (set_catchup_mode tok ch) = GetChannelName ch"
  "GetTvgShift (set_catchup_mode tok ch) = GetTvgShift ch"
  "GetCatchupSource (set_catchup_mode tok ch) = GetCatchupSource ch"
  "GetCatchupDays (set_catchup_mode tok ch) = GetCatchupDays ch"
  by (simp_all add: set_catchup_mode_def Let_def)

lemma set_xeev_catchup_fields:
  "HasCatchup (set_xeev_catchup x n ch) =
     (if \<not> HasCatchup ch \<and> x \<and> (StartsWith n ''* '' \<or> StartsWith n ''[+] '') then True
      else HasCatchup ch)"
  "GetCatchupMode (set_xeev_catchup x n ch) =
     (if \<not> HasCatchup ch \<and> x \<and> (StartsWith n ''* '' \<or> StartsWith n ''[+] '') then XTREAM_CODES
      else GetCatchupMode ch)"
  "IsCatchupTSStream (set_xeev_catchup x n ch) = IsCatchupTSStream ch"
  "GetChannelName (set_xeev_catchup x n ch) = GetChannelName ch"
  "GetTvgShift (set_xeev_catchup x n ch) = GetTvgShift ch"
  "GetCatchupSource (set_xeev_catchup x n ch) = GetCatchupSource ch"
  "GetCatchupDays (set_xeev_catchup x n ch) = GetCatchupDays ch"
  by (auto simp: set_xeev_catchup_def)

lemma set_catchup_days_fields:
  "HasCatchup (set_catchup_days ext cfg hdr s d ch) = HasCatchup ch"
  "GetCatchupMode (set_catchup_days ext cfg hdr s d ch) = GetCatchupMode ch"
  "IsCatchupTSStream (set_catchup_days ext cfg hdr s d ch) = IsCatchupTSStream ch"
  "GetChannelName (set_catchup_days ext cfg hdr s d ch) = GetChannelName ch"
  "GetTvgShift (set_catchup_days ext cfg hdr s d ch) = GetTvgShift ch"
  "GetCatchupSource (set_catchup_days ext cfg hdr s d ch) = GetCatchupSource ch"
  "GetCatchupDays (set_catchup_days ext cfg hdr s d ch) =
     (if s \<noteq> [] then atoi s
      else if m_catchupSource hdr \<noteq> [] then atoi (m_catchupDays hdr)
      else if GetCatchupMode ch = VOD then IGNORE_CATCHUP_DAYS ext
      else if d > 0 then d
      else CatchupDays cfg)"
  by (simp_all add: set_catchup_days_def)

lemma set_timeshift_mode_fields:
  "HasCatchup (set_timeshift_mode d ch) = (if \<not> HasCatchup ch \<and> d > 0 then True else HasCatchup ch)"
  "GetCatchupMode (set_timeshift_mode d ch) =
     (if \<not> HasCatchup ch \<and> d > 0 then TIMESHIFT else GetCatchupMode ch)"
  "IsCatchupTSStream (set_timeshift_mode d ch) = IsCatchupTSStream ch"
  "GetChannelName (set_timeshift_mode d ch) = GetChannelName ch"
  "GetTvgShift (set_timeshift_mode d ch) = GetTvgShift ch"
  "GetCatchupSource (set_timeshift_mode d ch) = GetCatchupSource ch"
  "GetCatchupDays (set_timeshift_mode d ch) = GetCatchupDays ch"
  by (simp_all add: set_timeshift_mode_def)

lemma link_provider_fields:
  "HasCatchup (link_provider p ch) = HasCatchup ch"
  "GetCatchupMode (link_provider p ch) = GetCatchupMode ch"
  "IsCatchupTSStream (link_provider p ch) = IsCatchupTSStream ch"
  "GetChannelName (link_provider p ch) = GetChannelName ch"
  "GetTvgShift (link_provider p ch) = GetTvgShift ch"
  "GetCatchupSource (link_provider p ch) = GetCatchupSource ch"
  "GetCatchupDays (link_provider p ch) = GetCatchupDays ch"
  by (simp_all add: link_provider_def split: option.split)

lemmas step_fields =
  set_catchup_mode_fields set_xeev_catchup_fields set_catchup_days_fields set_timeshift_mode_fields
  parse_channel_number_frame set_icon_path_fields default_tvg_shift_fields
  default_catchup_correction_fields link_provider_fields

text \<open>
  The body of \<open>ParseIntoChannel\<close> on a line whose colon is before its comma: it does not
  throw, it returns the value of \<open>group-title\<close>, it leaves the list of group identifiers
  alone, and the fields of the channel that the claims are about are these.
\<close>

lemma parse_attributes_fields:
  assumes "colon < comma" "comma < length line"
    and infoLine: "infoLine = take (comma - colon - 1) (drop (colon + 1) line)"
    and name: "name = UnknownToUTF8 ext (Trim (drop (comma + 1) line))"
    and strCatchup: "strCatchup =
           (let a = marker_value_spec infoLine CATCHUP;
                b = (if a = [] then marker_value_spec infoLine CATCHUP_TYPE else a)
            in if b = [] \<and> m_catchup hdr \<noteq> [] then m_catchup hdr else b)"
    and strTvgShift: "strTvgShift = marker_value_spec infoLine TVG_INFO_SHIFT_MARKER"
    and days: "days = siptv_timeshift_days (marker_value_spec infoLine CATCHUP_SIPTV)
                        (marker_value_spec infoLine TVG_INFO_REC)"
  shows "\<exists>g st'.
     parse_attributes ext cfg hdr line colon comma ets ccs xeev st = Some (g, st') \<and>
     g = marker_value_spec infoLine GROUP_NAME_MARKER \<and>
     p_groupIdList st' = p_groupIdList st \<and>
     GetChannelName (p_channel st') = name \<and>
     GetTvgShift (p_channel st') =
       (if strTvgShift = [] then ets else decimal_hours_to_seconds strTvgShift) \<and>
     GetCatchupSource (p_channel st') = UnknownToUTF8 ext (marker_value_spec infoLine CATCHUP_SOURCE) \<and>
     HasCatchup (p_channel st') =
       HasCatchup (set_timeshift_mode days (set_xeev_catchup xeev name
                     (set_catchup_mode strCatchup (p_channel st)))) \<and>
     GetCatchupMode (p_channel st') =
       GetCatchupMode (set_timeshift_mode days (set_xeev_catchup xeev name
                     (set_catchup_mode strCatchup (p_channel st)))) \<and>
     IsCatchupTSStream (p_channel st') =
       IsCatchupTSStream (set_catchup_mode strCatchup (p_channel st)) \<and>
     GetCatchupDays (p_channel st') =
       GetCatchupDays (set_catchup_days ext cfg hdr (marker_value_spec infoLine CATCHUP_DAYS) days
                        (set_xeev_catchup xeev name (set_catchup_mode strCatchup (p_channel st))))"
proof -
  from assms(1,2) have c: "colon < length line" by simp
  show ?thesis
    unfolding parse_attributes_def
    using assms(1,2) c
    apply (simp add: substr_Suc substr_n_Suc ReadMarkerValue_Some if_Some_Some
          bind_parse_channel_number Let_def split_beta
          split del: if_split cong: if_cong option.case_cong)
    apply (simp add: infoLine name strCatchup strTvgShift days step_fields Let_def
          split del: if_split cong: if_cong)
    done
qed

section \<open>The channel builder\<close>

lemma ParseIntoChannel_well_formed:
  assumes "find_ch line CHR '':'' 0 = Some colon" "select_comma line = Some (Some comma)"
    and "colon < comma"
  shows "ParseIntoChannel ext cfg hdr line ets ccs xeev st =
           parse_attributes ext cfg hdr line colon comma ets ccs xeev st"
  using assms by (simp add: ParseIntoChannel_def)

text \<open>No exception escapes \<open>ParseIntoChannel\<close>, whatever the line.\<close>

lemma ParseIntoChannel_total:
  "\<exists>g st'. ParseIntoChannel ext cfg hdr line ets ccs xeev st = Some (g, st')"
proof -
  from select_comma_total obtain c where c: "select_comma line = Some c" by blast
  show ?thesis
  proof (cases "find_ch line CHR '':'' 0")
    case None
    with c show ?thesis by (simp add: ParseIntoChannel_def)
  next
    case colon: (Some colon)
    show ?thesis
    proof (cases c)
      case None
      with c colon show ?thesis by (simp add: ParseIntoChannel_def)
    next
      case (Some comma)
      show ?thesis
      proof (cases "colon < comma")
        case False
        with c colon Some show ?thesis by (simp add: ParseIntoChannel_def)
      next
        case True
        from c Some have sc: "select_comma line = Some (Some comma)" by simp
        from select_comma_bound [OF sc] have lt: "comma < length line" .
        from parse_attributes_fields [OF True lt refl refl refl refl refl]
        obtain g st' where
          "parse_attributes ext cfg hdr line colon comma ets ccs xeev st = Some (g, st')"
          by blast
        with ParseIntoChannel_well_formed [OF colon sc True] show ?thesis by simp
      qed
    qed
  qed
qed

lemma effective_catchup_token_eq:
  "(let a = marker_value_spec infoLine CATCHUP;
        b = (if a = [] then marker_value_spec infoLine CATCHUP_TYPE else a)
    in if b = [] \<and> m_catchup hdr \<noteq> [] then m_catchup hdr else b)
   = effective_catchup_token hdr infoLine"
  by (simp add: effective_catchup_token_def Let_def)

text \<open>
  The fields of the channel after \<open>ParseIntoChannel\<close>, for a line that passes the test of
  line 257: \<open>colon\<close> is the index of its first colon, \<open>comma\<close> the index of the chosen comma.
\<close>

lemma ParseIntoChannel_fields:
  assumes "find_ch line CHR '':'' 0 = Some colon" "select_comma line = Some (Some comma)"
    and "colon < comma"
    and infoLine: "infoLine = take (comma - colon - 1) (drop (colon + 1) line)"
    and name: "name = UnknownToUTF8 ext (Trim (drop (comma + 1) line))"
    and tok: "tok = effective_catchup_token hdr infoLine"
    and days: "days = siptv_timeshift_days (marker_value_spec infoLine CATCHUP_SIPTV)
                        (marker_value_spec infoLine TVG_INFO_REC)"
  shows "\<exists>g st'.
     ParseIntoChannel ext cfg hdr line ets ccs xeev st = Some (g, st') \<and>
     g = marker_value_spec infoLine GROUP_NAME_MARKER \<and>
     p_groupIdList st' = p_groupIdList st \<and>
     GetChannelName (p_channel st') = name \<and>
     GetTvgShift (p_channel st') =
       (if marker_value_spec infoLine TVG_INFO_SHIFT_MARKER = [] then ets
        else decimal_hours_to_seconds (marker_value_spec infoLine TVG_INFO_SHIFT_MARKER)) \<and>
     GetCatchupSource (p_channel st') = UnknownToUTF8 ext (marker_value_spec infoLine CATCHUP_SOURCE) \<and>
     HasCatchup (p_channel st') =
       HasCatchup (set_timeshift_mode days (set_xeev_catchup xeev name
                     (set_catchup_mode tok (p_channel st)))) \<and>
     GetCatchupMode (p_channel st') =
       GetCatchupMode (set_timeshift_mode days (set_xeev_catchup xeev name
                     (set_catchup_mode tok (p_channel st)))) \<and>
     IsCatchupTSStream (p_channel st') = IsCatchupTSStream (set_catchup_mode tok (p_channel st)) \<and>
     GetCatchupDays (p_channel st') =
       GetCatchupDays (set_catchup_days ext cfg hdr (marker_value_spec infoLine CATCHUP_DAYS) days
                        (set_xeev_catchup xeev name (set_catchup_mode tok (p_channel st))))"
proof -
  from select_comma_bound [OF assms(2)] have lt: "comma < length line" .
  from parse_attributes_fields [where ext = ext and cfg = cfg and hdr = hdr and ets = ets
      and ccs = ccs and xeev = xeev and st = st, OF assms(3) lt infoLine name refl refl days]
  show ?thesis
    unfolding ParseIntoChannel_well_formed [OF assms(1-3)] effective_catchup_token_eq tok .
qed

text \<open>
  Claim C8. For every line that has no colon, no comma, or whose chosen comma does not
  come after its first colon, \<open>ParseIntoChannel\<close> returns the empty string and leaves the
  scratch channel, the scratch media entry, the list of group identifiers (and the
  provider registry) as they were, and no exception escapes.
\<close>

theorem malformed_extinf_is_inert:
  assumes "CHR '':'' \<notin> set line \<or> CHR '','' \<notin> set line \<or>
           (\<exists>colon comma. find_ch line CHR '':'' 0 = Some colon \<and>
                          select_comma line = Some (Some comma) \<and> comma \<le> colon)"
  shows "ParseIntoChannel ext cfg hdr line ets ccs xeev st = Some ([], st)"
proof -
  from select_comma_total obtain c where c: "select_comma line = Some c" by blast
  from assms consider
      (no_colon) "CHR '':'' \<notin> set line"
    | (no_comma) "CHR '','' \<notin> set line"
    | (order) colon comma where "find_ch line CHR '':'' 0 = Some colon"
        "select_comma line = Some (Some comma)" "comma \<le> colon"
    by blast
  then show ?thesis
  proof cases
    case no_colon
    then have "find_ch line CHR '':'' 0 = None" by (simp add: find_ch_0_None)
    with c show ?thesis by (simp add: ParseIntoChannel_def)
  next
    case no_comma
    then have "select_comma line = Some None" by (rule select_comma_no_comma)
    then show ?thesis by (simp add: ParseIntoChannel_def split: option.split)
  next
    case order
    then show ?thesis by (simp add: ParseIntoChannel_def)
  qed
qed

theorem malformed_extinf_is_inert_witness:
  \<open>CHR '':'' \<notin> set ''#EXTINF -1 tvg-id="c1",One'' \<and>
   ParseIntoChannel example_externals example_settings no_header_defaults
     ''#EXTINF -1 tvg-id="c1",One'' 0 0 False example_parse_state = Some ([], example_parse_state) \<and>
   CHR '','' \<notin> set ''#EXTINF:-1 tvg-id="c1" One'' \<and>
   ParseIntoChannel example_externals example_settings no_header_defaults
     ''#EXTINF:-1 tvg-id="c1" One'' 0 0 False example_parse_state = Some ([], example_parse_state) \<and>
   find_ch ''#EXTINF -1,One: two'' CHR '':'' 0 = Some 14 \<and>
   select_comma ''#EXTINF -1,One: two'' = Some (Some 10) \<and>
   ParseIntoChannel example_externals example_settings no_header_defaults
     ''#EXTINF -1,One: two'' 0 0 False example_parse_state = Some ([], example_parse_state)\<close>
proof -
  have a: \<open>CHR '':'' \<notin> set ''#EXTINF -1 tvg-id="c1",One''\<close> by simp
  have b: \<open>CHR '','' \<notin> set ''#EXTINF:-1 tvg-id="c1" One''\<close> by simp
  have c: "find_ch ''#EXTINF -1,One: two'' CHR '':'' 0 = Some 14"
    by (simp add: find_ch_def)
  have d: "select_comma ''#EXTINF -1,One: two'' = Some (Some 10)"
    by (simp add: select_comma_def rfind_ch_def dquote_def)
  from c d have e: "\<exists>colon comma. find_ch ''#EXTINF -1,One: two'' CHR '':'' 0 = Some colon \<and>
      select_comma ''#EXTINF -1,One: two'' = Some (Some comma) \<and> comma \<le> colon"
    by simp
  note w1 = malformed_extinf_is_inert [where ext = example_externals and cfg = example_settings
      and hdr = no_header_defaults and ets = 0 and ccs = 0 and xeev = False
      and st = example_parse_state, OF disjI1, OF a]
  note w2 = malformed_extinf_is_inert [where ext = example_externals and cfg = example_settings
      and hdr = no_header_defaults and ets = 0 and ccs = 0 and xeev = False
      and st = example_parse_state, OF disjI2, OF disjI1, OF b]
  note w3 = malformed_extinf_is_inert [where ext = example_externals and cfg = example_settings
      and hdr = no_header_defaults and ets = 0 and ccs = 0 and xeev = False
      and st = example_parse_state, OF disjI2, OF disjI2, OF e]
  show ?thesis by (intro conjI a b c d w1 w2 w3)
qed

text \<open>
  Claim C4. On a line that \<open>ParseIntoChannel\<close> parses (its first colon is before the
  chosen comma), let the token be the attribute \<open>catchup\<close>, else \<open>catchup-type\<close>, else the
  header default. When it equals, up to case, one of \<open>default\<close>, \<open>append\<close>, \<open>shift\<close>,
  \<open>flussonic\<close>, \<open>flussonic-hls\<close>, \<open>flussonic-ts\<close>, \<open>fs\<close>, \<open>xc\<close>, \<open>vod\<close>, the channel has
  catchup afterwards and its mode is \<open>DEFAULT\<close>, \<open>APPEND\<close>, \<open>SHIFT\<close>, \<open>FLUSSONIC\<close> (the four
  flussonic tokens), \<open>XTREAM_CODES\<close> or \<open>VOD\<close>; and the flag of the transport stream is
  set to true exactly when the token is \<open>flussonic-ts\<close> or \<open>fs\<close>, and is left as it was
  otherwise.
\<close>

theorem catchup_mode_selection:
  assumes "find_ch line CHR '':'' 0 = Some colon" "select_comma line = Some (Some comma)"
    and "colon < comma"
    and tok: "tok = effective_catchup_token hdr (take (comma - colon - 1) (drop (colon + 1) line))"
  shows "\<exists>g st'. ParseIntoChannel ext cfg hdr line ets ccs xeev st = Some (g, st') \<and>
      (EqualsNoCase tok ''default'' \<longrightarrow>
         HasCatchup (p_channel st') \<and> GetCatchupMode (p_channel st') = DEFAULT) \<and>
      (EqualsNoCase tok ''append'' \<longrightarrow>
         HasCatchup (p_channel st') \<and> GetCatchupMode (p_channel st') = APPEND) \<and>
      (EqualsNoCase tok ''shift'' \<longrightarrow>
         HasCatchup (p_channel st') \<and> GetCatchupMode (p_channel st') = SHIFT) \<and>
      (EqualsNoCase tok ''flussonic'' \<or> EqualsNoCase tok ''flussonic-hls'' \<or>
       EqualsNoCase tok ''flussonic-ts'' \<or> EqualsNoCase tok ''fs'' \<longrightarrow>
         HasCatchup (p_channel st') \<and> GetCatchupMode (p_channel st') = FLUSSONIC) \<and>
      (EqualsNoCase tok ''xc'' \<longrightarrow>
         HasCatchup (p_channel st') \<and> GetCatchupMode (p_channel st') = XTREAM_CODES) \<and>
      (EqualsNoCase tok ''vod'' \<longrightarrow>
         HasCatchup (p_channel st') \<and> GetCatchupMode (p_channel st') = VOD) \<and>
      IsCatchupTSStream (p_channel st') =
        (if EqualsNoCase tok ''flussonic-ts'' \<or> EqualsNoCase tok ''fs'' then True
         else IsCatchupTSStream (p_channel st))"
proof -
  from ParseIntoChannel_fields [where ext = ext and cfg = cfg and ets = ets and ccs = ccs
      and xeev = xeev and st = st, OF assms(1-3) refl refl tok refl]
  obtain g st' d n where pic: "ParseIntoChannel ext cfg hdr line ets ccs xeev st = Some (g, st')"
    and has: "HasCatchup (p_channel st') =
       HasCatchup (set_timeshift_mode d (set_xeev_catchup xeev n (set_catchup_mode tok (p_channel st))))"
    and mode: "GetCatchupMode (p_channel st') =
       GetCatchupMode (set_timeshift_mode d (set_xeev_catchup xeev n (set_catchup_mode tok (p_channel st))))"
    and ts: "IsCatchupTSStream (p_channel st') = IsCatchupTSStream (set_catchup_mode tok (p_channel st))"
    by blast
  have lit:
    "EqualsNoCase tok ''default'' \<longleftrightarrow> map tolower tok = ''default''"
    "EqualsNoCase tok ''append'' \<longleftrightarrow> map tolower tok = ''append''"
    "EqualsNoCase tok ''shift'' \<longleftrightarrow> map tolower tok = ''shift''"
    "EqualsNoCase tok ''flussonic'' \<longleftrightarrow> map tolower tok = ''flussonic''"
    "EqualsNoCase tok ''flussonic-hls'' \<longleftrightarrow> map tolower tok = ''flussonic-hls''"
    "EqualsNoCase tok ''flussonic-ts'' \<longleftrightarrow> map tolower tok = ''flussonic-ts''"
    "EqualsNoCase tok ''fs'' \<longleftrightarrow> map tolower tok = ''fs''"
    "EqualsNoCase tok ''xc'' \<longleftrightarrow> map tolower tok = ''xc''"
    "EqualsNoCase tok ''vod'' \<longleftrightarrow> map tolower tok = ''vod''"
    by (simp_all add: EqualsNoCase_def tolower_def)
  have "EqualsNoCase tok ''default'' \<longrightarrow>
         HasCatchup (p_channel st') \<and> GetCatchupMode (p_channel st') = DEFAULT"
    by (simp add: has mode step_fields)
  moreover have "EqualsNoCase tok ''append'' \<longrightarrow>
         HasCatchup (p_channel st') \<and> GetCatchupMode (p_channel st') = APPEND"
    unfolding has mode step_fields lit by simp
  moreover have "EqualsNoCase tok ''shift'' \<longrightarrow>
         HasCatchup (p_channel st') \<and> GetCatchupMode (p_channel st') = SHIFT"
    unfolding has mode step_fields lit by simp
  moreover have "EqualsNoCase tok ''flussonic'' \<or> EqualsNoCase tok ''flussonic-hls'' \<or>
       EqualsNoCase tok ''flussonic-ts'' \<or> EqualsNoCase tok ''fs'' \<longrightarrow>
         HasCatchup (p_channel st') \<and> GetCatchupMode (p_channel st') = FLUSSONIC"
    unfolding has mode step_fields lit by auto
  moreover have "EqualsNoCase tok ''xc'' \<longrightarrow>
         HasCatchup (p_channel st') \<and> GetCatchupMode (p_channel st') = XTREAM_CODES"
    unfolding has mode step_fields lit by simp
  moreover have "EqualsNoCase tok ''vod'' \<longrightarrow>
         HasCatchup (p_channel st') \<and> GetCatchupMode (p_channel st') = VOD"
    unfolding has mode step_fields lit by simp
  moreover have "IsCatchupTSStream (p_channel st') =
        (if EqualsNoCase tok ''flussonic-ts'' \<or> EqualsNoCase tok ''fs'' then True
         else IsCatchupTSStream (p_channel st))"
    by (simp add: ts step_fields)
  ultimately show ?thesis using pic by blast
qed

theorem catchup_mode_selection_witness:
  \<open>find_ch ''#EXTINF:-1 catchup="Flussonic-TS",One'' CHR '':'' 0 = Some 7 \<and>
   select_comma ''#EXTINF:-1 catchup="Flussonic-TS",One'' = Some (Some 33) \<and>
   effective_catchup_token no_header_defaults
     (take (33 - 7 - 1) (drop (7 + 1) ''#EXTINF:-1 catchup="Flussonic-TS",One'')) = ''Flussonic-TS'' \<and>
   (\<exists>g st'. ParseIntoChannel example_externals example_settings no_header_defaults
        ''#EXTINF:-1 catchup="Flussonic-TS",One'' 0 0 False example_parse_state = Some (g, st') \<and>
      HasCatchup (p_channel st') \<and> GetCatchupMode (p_channel st') = FLUSSONIC \<and>
      IsCatchupTSStream (p_channel st'))\<close>
proof -
  have a: \<open>find_ch ''#EXTINF:-1 catchup="Flussonic-TS",One'' CHR '':'' 0 = Some 7\<close>
    by (simp add: find_ch_def)
  have b: \<open>select_comma ''#EXTINF:-1 catchup="Flussonic-TS",One'' = Some (Some 33)\<close>
    by code_simp
  have t: \<open>effective_catchup_token no_header_defaults
     (take (33 - 7 - 1) (drop (7 + 1) ''#EXTINF:-1 catchup="Flussonic-TS",One'')) = ''Flussonic-TS''\<close>
    by code_simp
  have e: "EqualsNoCase ''Flussonic-TS'' ''flussonic-ts''"
    by (simp add: EqualsNoCase_def tolower_def)
  from catchup_mode_selection [where ext = example_externals and cfg = example_settings
      and ets = 0 and ccs = 0 and xeev = False and st = example_parse_state,
      OF a b _ t [symmetric]] e
  have "\<exists>g st'. ParseIntoChannel example_externals example_settings no_header_defaults
        ''#EXTINF:-1 catchup=\"Flussonic-TS\",One'' 0 0 False example_parse_state = Some (g, st') \<and>
      HasCatchup (p_channel st') \<and> GetCatchupMode (p_channel st') = FLUSSONIC \<and>
      IsCatchupTSStream (p_channel st')"
    by auto
  with a b t show ?thesis by blast
qed

text \<open>A line that starts with \<open>#EXTINF:\<close> and has a comma behind its last double quote is parsed.\<close>

lemma extinf_colon_line_is_parsed:
  assumes "prefix ''#EXTINF:'' line" "dquote \<in> set line"
    and "StartsWith (Trim (after_last_quote line)) '',''"
  shows "\<exists>comma. find_ch line CHR '':'' 0 = Some 7 \<and> select_comma line = Some (Some comma) \<and> 7 < comma"
proof -
  from assms(1) obtain rest where line: "line = ''#EXTINF:'' @ rest" by (auto simp: prefix_def)
  then have colon: "find_ch line CHR '':'' 0 = Some 7" by (simp add: find_ch_def)
  from assms(2) obtain q where q: "rfind_ch line dquote = Some q"
    by (cases "rfind_ch line dquote") (simp_all add: rfind_ch_None)
  from rfind_ch_Some [OF q] have qlt: "q < length line" and qq: "line ! q = dquote"
    and tail: "drop (q + 1) line = after_last_quote line"
    by (simp_all add: after_last_quote_def)
  have "7 < q"
  proof (rule ccontr)
    assume "\<not> 7 < q"
    then have "q \<in> {0, 1, 2, 3, 4, 5, 6, 7}" by auto
    with qq line show False by (auto simp: dquote_def)
  qed
  moreover from select_comma_relocated(1) [OF q] assms(3) tail
  have "select_comma line =
      Some (Some (q + 1 + length (takeWhile (\<lambda>x. x \<noteq> CHR '','') (drop (q + 1) line))))"
    by simp
  ultimately show ?thesis using colon by simp
qed

text \<open>
  Claim C5, as amended. On a line whose first colon stands before the comma that
  \<open>ParseIntoChannel\<close> selects, that contains a double quote and whose text behind the last
  double quote, trimmed, begins with a comma, the display name of the channel is the
  trimmed text behind the first comma that follows that last double quote, converted to
  UTF-8, also when commas stand inside quoted values. The claim as written asks for this
  on every \<open>#EXTINF\<close> line, and the guard of line 257 excludes the lines with no colon before
  that comma; a line that starts with \<open>#EXTINF:\<close> passes it.
\<close>

theorem channel_name_after_last_quote:
  assumes "find_ch line CHR '':'' 0 = Some colon" "select_comma line = Some (Some comma)"
    and "colon < comma"
    and "dquote \<in> set line"
    and "StartsWith (Trim (after_last_quote line)) '',''"
  shows "\<exists>g st'. ParseIntoChannel ext cfg hdr line ets ccs xeev st = Some (g, st') \<and>
           GetChannelName (p_channel st') =
             UnknownToUTF8 ext (Trim (after_first_comma (after_last_quote line)))"
proof -
  from assms(4) obtain q where q: "rfind_ch line dquote = Some q"
    by (cases "rfind_ch line dquote") (simp_all add: rfind_ch_None)
  from rfind_ch_Some(3) [OF q] have tail: "drop (q + 1) line = after_last_quote line"
    by (simp add: after_last_quote_def)
  let ?k = "length (takeWhile (\<lambda>x. x \<noteq> CHR '','') (after_last_quote line))"
  from select_comma_relocated(1) [OF q] assms(5) tail
  have "select_comma line = Some (Some (q + 1 + ?k))" by simp
  with assms(2) have comma: "comma = q + 1 + ?k" by simp
  have "drop (comma + 1) line = drop (?k + 1) (drop (q + 1) line)"
    unfolding comma by (simp add: add.commute add.left_commute)
  also have "\<dots> = drop 1 (drop ?k (after_last_quote line))"
    unfolding tail by simp
  also have "\<dots> = after_first_comma (after_last_quote line)"
    by (simp add: after_first_comma_def dropWhile_eq_drop)
  finally have name: "drop (comma + 1) line = after_first_comma (after_last_quote line)" .
  from ParseIntoChannel_fields [where ext = ext and cfg = cfg and hdr = hdr and ets = ets
      and ccs = ccs and xeev = xeev and st = st, OF assms(1-3) refl refl refl refl]
  obtain g st' where "ParseIntoChannel ext cfg hdr line ets ccs xeev st = Some (g, st')"
    and "GetChannelName (p_channel st') = UnknownToUTF8 ext (Trim (drop (comma + 1) line))"
    by blast
  with name show ?thesis by simp
qed

theorem channel_name_after_last_quote_witness:
  \<open>find_ch ''#EXTINF:-1 tvg-name="A,B",C'' CHR '':'' 0 = Some 7 \<and>
   select_comma ''#EXTINF:-1 tvg-name="A,B",C'' = Some (Some 25) \<and>
   dquote \<in> set ''#EXTINF:-1 tvg-name="A,B",C'' \<and>
   StartsWith (Trim (after_last_quote ''#EXTINF:-1 tvg-name="A,B",C'')) '','' \<and>
   (\<exists>g st'. ParseIntoChannel example_externals example_settings no_header_defaults
        ''#EXTINF:-1 tvg-name="A,B",C'' 0 0 False example_parse_state = Some (g, st') \<and>
      GetChannelName (p_channel st') = ''C'')\<close>
proof -
  have a: \<open>find_ch ''#EXTINF:-1 tvg-name="A,B",C'' CHR '':'' 0 = Some 7\<close>
    by (simp add: find_ch_def)
  have b: \<open>select_comma ''#EXTINF:-1 tvg-name="A,B",C'' = Some (Some 25)\<close>
    by code_simp
  have c: \<open>dquote \<in> set ''#EXTINF:-1 tvg-name="A,B",C''\<close>
    by (simp add: dquote_def)
  have d: \<open>StartsWith (Trim (after_last_quote ''#EXTINF:-1 tvg-name="A,B",C'')) '',''\<close>
    by code_simp
  have n: \<open>UnknownToUTF8 example_externals
      (Trim (after_first_comma (after_last_quote ''#EXTINF:-1 tvg-name="A,B",C''))) = ''C''\<close>
    by code_simp
  from channel_name_after_last_quote [where ext = example_externals and cfg = example_settings
      and hdr = no_header_defaults and ets = 0 and ccs = 0 and xeev = False
      and st = example_parse_state, OF a b _ c d]
  have "\<exists>g st'. ParseIntoChannel example_externals example_settings no_header_defaults
        ''#EXTINF:-1 tvg-name=\"A,B\",C'' 0 0 False example_parse_state = Some (g, st') \<and>
      GetChannelName (p_channel st') = ''C''"
    unfolding n by simp
  with a b c d show ?thesis by blast
qed

text \<open>
  Claim C5 as written fails on the line \<open>#EXTINF -1 tvg-id="c1",One\<close>: it starts with
  \<open>#EXTINF\<close>, as the lines that \<open>LoadPlayList\<close> hands over do, it contains a double quote,
  the text behind its last double quote begins with a comma, and the text behind that
  comma is \<open>One\<close>; there is no colon, and the name of the channel stays empty.
\<close>

theorem no_colon_no_name:
  \<open>StartsWith ''#EXTINF -1 tvg-id="c1",One'' M3U_INFO_MARKER \<and>
   dquote \<in> set ''#EXTINF -1 tvg-id="c1",One'' \<and>
   StartsWith (Trim (after_last_quote ''#EXTINF -1 tvg-id="c1",One'')) '','' \<and>
   UnknownToUTF8 example_externals
     (Trim (after_first_comma (after_last_quote ''#EXTINF -1 tvg-id="c1",One''))) = ''One'' \<and>
   ParseIntoChannel example_externals example_settings no_header_defaults
     ''#EXTINF -1 tvg-id="c1",One'' 0 0 False example_parse_state = Some ([], example_parse_state) \<and>
   GetChannelName (p_channel example_parse_state) = []\<close>
proof -
  have a: \<open>StartsWith ''#EXTINF -1 tvg-id="c1",One'' M3U_INFO_MARKER\<close> by code_simp
  have b: \<open>dquote \<in> set ''#EXTINF -1 tvg-id="c1",One''\<close> by (simp add: dquote_def)
  have c: \<open>StartsWith (Trim (after_last_quote ''#EXTINF -1 tvg-id="c1",One'')) '',''\<close>
    by code_simp
  have d: \<open>UnknownToUTF8 example_externals
     (Trim (after_first_comma (after_last_quote ''#EXTINF -1 tvg-id="c1",One''))) = ''One''\<close>
    by code_simp
  have e: \<open>ParseIntoChannel example_externals example_settings no_header_defaults
     ''#EXTINF -1 tvg-id="c1",One'' 0 0 False example_parse_state = Some ([], example_parse_state)\<close>
    by code_simp
  have f: "GetChannelName (p_channel example_parse_state) = []" by code_simp
  from a b c d e f show ?thesis by (intro conjI)
qed


text \<open>
  One hour and a half is 5400 seconds: the number and the product are doubles. The double
  next to 4.1 is below it, and so is the product with 3600, which is below 14760.
\<close>

lemma one_and_a_half_hours: "decimal_hours_to_seconds ''1.5'' = 5400"
  by code_simp

lemma four_point_one_hours: "decimal_hours_to_seconds ''4.1'' = 14759"
  by code_simp

text \<open>
  Claim C7, as amended. On a line that \<open>ParseIntoChannel\<close> parses, a value of \<open>tvg-shift\<close>
  is read by \<open>atof\<close> as a double and multiplied by 3600 as a double, both rounded to the
  nearest double; when the product \<open>p\<close> is finite and its truncation toward zero is an
  \<open>int\<close>, that truncation is the shift of the channel. So the shift is the decimal hours
  times 3600, truncated toward zero, whenever the number written and its product with
  3600 are doubles (and the truncation is an \<open>int\<close>): \<open>1.5\<close> gives 5400, while \<open>4.1\<close> gives
  14759. Without a value for \<open>tvg-shift\<close>, and so when the attribute is absent, the shift
  is the default \<open>epgTimeShift\<close> of the header (\<open>headerShift\<close> below).
\<close>

theorem tvg_shift_in_seconds:
  assumes "find_ch line CHR '':'' 0 = Some colon" "select_comma line = Some (Some comma)"
    and "colon < comma"
    and infoLine: "infoLine = take (comma - colon - 1) (drop (colon + 1) line)"
    and strTvgShift: "strTvgShift = marker_value_spec infoLine TVG_INFO_SHIFT_MARKER"
  shows "\<exists>g st'. ParseIntoChannel ext cfg hdr line headerShift ccs xeev st = Some (g, st') \<and>
           (strTvgShift = [] \<longrightarrow> GetTvgShift (p_channel st') = headerShift) \<and>
           (after_first_occurrence TVG_INFO_SHIFT_MARKER infoLine = None \<longrightarrow>
              GetTvgShift (p_channel st') = headerShift) \<and>
           (strTvgShift \<noteq> [] \<and> double_mul (atof strTvgShift) (Finite 3600) = Finite p \<and>
            - (2 ^ 31) - 1 < p \<and> p < 2 ^ 31 \<longrightarrow>
              GetTvgShift (p_channel st') = (if 0 \<le> p then \<lfloor>p\<rfloor> else \<lceil>p\<rceil>)) \<and>
           (strTvgShift \<noteq> [] \<and> atof strTvgShift = Finite (strtod_exact strTvgShift) \<and>
            round_binary64 (strtod_exact strTvgShift * 3600) = Finite (strtod_exact strTvgShift * 3600) \<and>
            - (2 ^ 31) - 1 < strtod_exact strTvgShift * 3600 \<and>
            strtod_exact strTvgShift * 3600 < 2 ^ 31 \<longrightarrow>
              GetTvgShift (p_channel st') = decimal_hours_in_seconds strTvgShift) \<and>
           (strTvgShift = ''1.5'' \<longrightarrow> GetTvgShift (p_channel st') = 5400) \<and>
           (strTvgShift = ''4.1'' \<longrightarrow> GetTvgShift (p_channel st') = 14759)"
proof -
  from ParseIntoChannel_fields [where ext = ext and cfg = cfg and hdr = hdr and ets = headerShift
      and ccs = ccs and xeev = xeev and st = st, OF assms(1-3) infoLine refl refl refl]
  obtain g st' where pic: "ParseIntoChannel ext cfg hdr line headerShift ccs xeev st = Some (g, st')"
    and shift: "GetTvgShift (p_channel st') =
       (if strTvgShift = [] then headerShift else decimal_hours_to_seconds strTvgShift)"
    unfolding strTvgShift by blast
  have absent: "strTvgShift = []" if "after_first_occurrence TVG_INFO_SHIFT_MARKER infoLine = None"
    using that by (simp add: strTvgShift marker_value_spec_def)
  have product: "decimal_hours_to_seconds strTvgShift = (if 0 \<le> q then \<lfloor>q\<rfloor> else \<lceil>q\<rceil>)"
    if "double_mul (atof strTvgShift) (Finite 3600) = Finite q" "- (2 ^ 31) - 1 < q" "q < 2 ^ 31"
    for q
    unfolding decimal_hours_to_seconds_def that(1) using that(2,3) by (rule double_to_int_truncates)
  have exact: "decimal_hours_to_seconds strTvgShift = decimal_hours_in_seconds strTvgShift"
    if "atof strTvgShift = Finite (strtod_exact strTvgShift)"
      "round_binary64 (strtod_exact strTvgShift * 3600) = Finite (strtod_exact strTvgShift * 3600)"
      "- (2 ^ 31) - 1 < strtod_exact strTvgShift * 3600" "strtod_exact strTvgShift * 3600 < 2 ^ 31"
  proof -
    from that(1,2) have "double_mul (atof strTvgShift) (Finite 3600)
        = Finite (strtod_exact strTvgShift * 3600)"
      by simp
    from product [OF this that(3,4)] show ?thesis
      by (simp add: decimal_hours_in_seconds_def Let_def)
  qed
  have c1: "strTvgShift = [] \<longrightarrow> GetTvgShift (p_channel st') = headerShift"
    using shift by simp
  have c2: "after_first_occurrence TVG_INFO_SHIFT_MARKER infoLine = None \<longrightarrow>
      GetTvgShift (p_channel st') = headerShift"
    using shift absent by simp
  have c3: "strTvgShift \<noteq> [] \<and> double_mul (atof strTvgShift) (Finite 3600) = Finite p \<and>
      - (2 ^ 31) - 1 < p \<and> p < 2 ^ 31 \<longrightarrow>
      GetTvgShift (p_channel st') = (if 0 \<le> p then \<lfloor>p\<rfloor> else \<lceil>p\<rceil>)"
    using shift product by (simp del: double_mul.simps)
  have c4: "strTvgShift \<noteq> [] \<and> atof strTvgShift = Finite (strtod_exact strTvgShift) \<and>
      round_binary64 (strtod_exact strTvgShift * 3600) = Finite (strtod_exact strTvgShift * 3600) \<and>
      - (2 ^ 31) - 1 < strtod_exact strTvgShift * 3600 \<and>
      strtod_exact strTvgShift * 3600 < 2 ^ 31 \<longrightarrow>
      GetTvgShift (p_channel st') = decimal_hours_in_seconds strTvgShift"
    using shift exact by simp
  have c5: "strTvgShift = ''1.5'' \<longrightarrow> GetTvgShift (p_channel st') = 5400"
    using shift one_and_a_half_hours by simp
  have c6: "strTvgShift = ''4.1'' \<longrightarrow> GetTvgShift (p_channel st') = 14759"
    using shift four_point_one_hours by simp
  show ?thesis by (intro exI [of _ g] exI [of _ st'] conjI pic c1 c2 c3 c4 c5 c6)
qed

theorem tvg_shift_in_seconds_witness:
  \<open>find_ch ''#EXTINF:-1 tvg-shift="1.5",One'' CHR '':'' 0 = Some 7 \<and>
   select_comma ''#EXTINF:-1 tvg-shift="1.5",One'' = Some (Some 26) \<and>
   marker_value_spec (take (26 - 7 - 1) (drop (7 + 1) ''#EXTINF:-1 tvg-shift="1.5",One''))
     TVG_INFO_SHIFT_MARKER = ''1.5'' \<and>
   double_mul (atof ''1.5'') (Finite 3600) = Finite 5400 \<and>
   atof ''1.5'' = Finite (strtod_exact ''1.5'') \<and>
   round_binary64 (strtod_exact ''1.5'' * 3600) = Finite (strtod_exact ''1.5'' * 3600) \<and>
   - (2 ^ 31) - 1 < strtod_exact ''1.5'' * 3600 \<and> strtod_exact ''1.5'' * 3600 < 2 ^ 31 \<and>
   decimal_hours_in_seconds ''1.5'' = 5400 \<and>
   (\<exists>g st'. ParseIntoChannel example_externals example_settings no_header_defaults
        ''#EXTINF:-1 tvg-shift="1.5",One'' 7200 0 False example_parse_state = Some (g, st') \<and>
      GetTvgShift (p_channel st') = 5400) \<and>
   find_ch ''#EXTINF:-1 tvg-id="c1",One'' CHR '':'' 0 = Some 7 \<and>
   select_comma ''#EXTINF:-1 tvg-id="c1",One'' = Some (Some 22) \<and>
   after_first_occurrence TVG_INFO_SHIFT_MARKER
     (take (22 - 7 - 1) (drop (7 + 1) ''#EXTINF:-1 tvg-id="c1",One'')) = None \<and>
   (\<exists>g st'. ParseIntoChannel example_externals example_settings no_header_defaults
        ''#EXTINF:-1 tvg-id="c1",One'' 7200 0 False example_parse_state = Some (g, st') \<and>
      GetTvgShift (p_channel st') = 7200)\<close>
proof -
  have a: \<open>find_ch ''#EXTINF:-1 tvg-shift="1.5",One'' CHR '':'' 0 = Some 7\<close>
    by (simp add: find_ch_def)
  have b: \<open>select_comma ''#EXTINF:-1 tvg-shift="1.5",One'' = Some (Some 26)\<close>
    by code_simp
  have v: \<open>marker_value_spec (take (26 - 7 - 1) (drop (7 + 1) ''#EXTINF:-1 tvg-shift="1.5",One''))
     TVG_INFO_SHIFT_MARKER = ''1.5''\<close>
    by code_simp
  have p: "double_mul (atof ''1.5'') (Finite 3600) = Finite 5400" by code_simp
  have x: "atof ''1.5'' = Finite (strtod_exact ''1.5'')" by code_simp
  have r: "round_binary64 (strtod_exact ''1.5'' * 3600) = Finite (strtod_exact ''1.5'' * 3600)"
    by code_simp
  have lo: "- (2 ^ 31) - 1 < strtod_exact ''1.5'' * 3600" by code_simp
  have hi: "strtod_exact ''1.5'' * 3600 < 2 ^ 31" by code_simp
  have d: "decimal_hours_in_seconds ''1.5'' = 5400" by code_simp
  have ne: "''1.5'' \<noteq> []" by simp
  from tvg_shift_in_seconds [where ext = example_externals and cfg = example_settings
      and hdr = no_header_defaults and headerShift = 7200 and ccs = 0 and xeev = False
      and st = example_parse_state and p = 5400, OF a b _ refl v [symmetric]]
  obtain g st' where run: "ParseIntoChannel example_externals example_settings no_header_defaults
        ''#EXTINF:-1 tvg-shift=\"1.5\",One'' 7200 0 False example_parse_state = Some (g, st')"
    and byp: "''1.5'' \<noteq> [] \<and> double_mul (atof ''1.5'') (Finite 3600) = Finite 5400 \<and>
        - (2 ^ 31) - 1 < (5400 :: rat) \<and> (5400 :: rat) < 2 ^ 31 \<longrightarrow>
        GetTvgShift (p_channel st') = (if 0 \<le> (5400 :: rat) then \<lfloor>5400 :: rat\<rfloor> else \<lceil>5400 :: rat\<rceil>)"
    and byd: "''1.5'' \<noteq> [] \<and> atof ''1.5'' = Finite (strtod_exact ''1.5'') \<and>
        round_binary64 (strtod_exact ''1.5'' * 3600) = Finite (strtod_exact ''1.5'' * 3600) \<and>
        - (2 ^ 31) - 1 < strtod_exact ''1.5'' * 3600 \<and> strtod_exact ''1.5'' * 3600 < 2 ^ 31 \<longrightarrow>
        GetTvgShift (p_channel st') = decimal_hours_in_seconds ''1.5''"
    by auto
  from byp ne p have "GetTvgShift (p_channel st') = 5400" by simp
  moreover from byd ne x r lo hi d have "GetTvgShift (p_channel st') = 5400" by simp
  ultimately have one: "\<exists>g st'. ParseIntoChannel example_externals example_settings no_header_defaults
        ''#EXTINF:-1 tvg-shift=\"1.5\",One'' 7200 0 False example_parse_state = Some (g, st') \<and>
      GetTvgShift (p_channel st') = 5400"
    using run by blast
  have a': \<open>find_ch ''#EXTINF:-1 tvg-id="c1",One'' CHR '':'' 0 = Some 7\<close>
    by (simp add: find_ch_def)
  have b': \<open>select_comma ''#EXTINF:-1 tvg-id="c1",One'' = Some (Some 22)\<close>
    by code_simp
  have n: \<open>after_first_occurrence TVG_INFO_SHIFT_MARKER
     (take (22 - 7 - 1) (drop (7 + 1) ''#EXTINF:-1 tvg-id="c1",One'')) = None\<close>
    by code_simp
  from tvg_shift_in_seconds [where ext = example_externals and cfg = example_settings
      and hdr = no_header_defaults and headerShift = 7200 and ccs = 0 and xeev = False
      and st = example_parse_state and p = 0, OF a' b' _ refl refl] n
  have two: "\<exists>g st'. ParseIntoChannel example_externals example_settings no_header_defaults
        ''#EXTINF:-1 tvg-id=\"c1\",One'' 7200 0 False example_parse_state = Some (g, st') \<and>
      GetTvgShift (p_channel st') = 7200"
    by auto
  from a b v p x r lo hi d one a' b' n two show ?thesis by (intro conjI)
qed

text \<open>
  Claim C7 as written fails on the line \<open>#EXTINF:-1 tvg-shift="4.1",One\<close>: 4.1 hours are
  14760 seconds, and the channel gets 14759, since the double next to 4.1 times 3600 is a
  double below 14760. It fails on \<open>tvg-shift="1000000"\<close> too, where 3600000000 is no
  \<open>int\<close>.
\<close>

theorem tvg_shift_is_a_double_product:
  \<open>map_option (GetTvgShift \<circ> p_channel \<circ> snd)
     (ParseIntoChannel example_externals example_settings no_header_defaults
        ''#EXTINF:-1 tvg-shift="4.1",One'' 0 0 False example_parse_state) = Some 14759 \<and>
   strtod_exact ''4.1'' = 41 / 10 \<and>
   decimal_hours_in_seconds ''4.1'' = 14760 \<and>
   map_option (GetTvgShift \<circ> p_channel \<circ> snd)
     (ParseIntoChannel example_externals example_settings no_header_defaults
        ''#EXTINF:-1 tvg-shift="1000000",One'' 0 0 False example_parse_state) = Some (- 2147483648) \<and>
   decimal_hours_in_seconds ''1000000'' = 3600000000\<close>
proof -
  have a: \<open>map_option (GetTvgShift \<circ> p_channel \<circ> snd)
     (ParseIntoChannel example_externals example_settings no_header_defaults
        ''#EXTINF:-1 tvg-shift="4.1",One'' 0 0 False example_parse_state) = Some 14759\<close>
    by code_simp
  have b: "strtod_exact ''4.1'' = 41 / 10" by code_simp
  have c: "decimal_hours_in_seconds ''4.1'' = 14760" by code_simp
  have d: \<open>map_option (GetTvgShift \<circ> p_channel \<circ> snd)
     (ParseIntoChannel example_externals example_settings no_header_defaults
        ''#EXTINF:-1 tvg-shift="1000000",One'' 0 0 False example_parse_state) = Some (- 2147483648)\<close>
    by code_simp
  have e: "decimal_hours_in_seconds ''1000000'' = 3600000000" by code_simp
  from a b c d e show ?thesis by (intro conjI)
qed

text \<open>
  The catchup days of a parsed line, as the code sets them (lines 387-397): the header's
  \<open>catchup-days\<close> is taken when the header has a \<open>catchup-source\<close>, whether or not it has a
  \<open>catchup-days\<close>.
\<close>

lemma catchup_days_as_coded:
  assumes "find_ch line CHR '':'' 0 = Some colon" "select_comma line = Some (Some comma)"
    and "colon < comma"
    and infoLine: "infoLine = take (comma - colon - 1) (drop (colon + 1) line)"
    and "marker_value_spec infoLine CATCHUP_DAYS = []"
  shows "\<exists>g st'. ParseIntoChannel ext cfg hdr line ets ccs xeev st = Some (g, st') \<and>
           (m_catchupSource hdr \<noteq> [] \<longrightarrow> GetCatchupDays (p_channel st') = atoi (m_catchupDays hdr)) \<and>
           (m_catchupSource hdr = [] \<longrightarrow>
              GetCatchupDays (p_channel st') = IGNORE_CATCHUP_DAYS ext \<or>
              GetCatchupDays (p_channel st') =
                siptv_timeshift_days (marker_value_spec infoLine CATCHUP_SIPTV)
                  (marker_value_spec infoLine TVG_INFO_REC) \<or>
              GetCatchupDays (p_channel st') = CatchupDays cfg)"
proof -
  from ParseIntoChannel_fields [where ext = ext and cfg = cfg and hdr = hdr and ets = ets
      and ccs = ccs and xeev = xeev and st = st, OF assms(1-3) infoLine refl refl refl]
  obtain g st' c where "ParseIntoChannel ext cfg hdr line ets ccs xeev st = Some (g, st')"
    and "GetCatchupDays (p_channel st') =
       GetCatchupDays (set_catchup_days ext cfg hdr (marker_value_spec infoLine CATCHUP_DAYS)
         (siptv_timeshift_days (marker_value_spec infoLine CATCHUP_SIPTV)
            (marker_value_spec infoLine TVG_INFO_REC)) c)"
    by blast
  with assms(5) show ?thesis by (auto simp: set_catchup_days_fields)
qed

text \<open>
  Claim C1 (the code departs from it). The header \<open>#EXTM3U catchup-days="5"\<close> gives the
  defaults below; the line has no \<open>catchup-days\<close>; the settings give 3 catchup days. The
  claim asks for 5 catchup days; the channel gets the 3 of the settings, since line 390
  tests the header's \<open>catchup-source\<close>, which is empty.
\<close>

theorem header_catchup_days_not_taken:
  \<open>map_option (\<lambda>(g, st). GetCatchupDays (p_channel st))
     (ParseIntoChannel example_externals example_settings
        \<lparr>m_catchup = [], m_catchupDays = ''5'', m_catchupSource = []\<rparr>
        ''#EXTINF:-1 tvg-id="c1",One'' 0 0 False example_parse_state) = Some 3\<close>
  by code_simp

text \<open>
  The catchup source of a parsed line, as the code sets it (lines 332-335): the value of
  the attribute of the line, whatever the header holds.
\<close>

lemma catchup_source_as_coded:
  assumes "find_ch line CHR '':'' 0 = Some colon" "select_comma line = Some (Some comma)"
    and "colon < comma"
    and infoLine: "infoLine = take (comma - colon - 1) (drop (colon + 1) line)"
  shows "\<exists>g st'. ParseIntoChannel ext cfg hdr line ets ccs xeev st = Some (g, st') \<and>
           GetCatchupSource (p_channel st') =
             UnknownToUTF8 ext (marker_value_spec infoLine CATCHUP_SOURCE)"
proof -
  from ParseIntoChannel_fields [where ext = ext and cfg = cfg and hdr = hdr and ets = ets
      and ccs = ccs and xeev = xeev and st = st, OF assms(1-3) infoLine refl refl refl]
  show ?thesis by blast
qed

text \<open>
  Claim C2 (the code departs from it). The header
  \<open>#EXTM3U catchup-source="http://h/catchup/{utc}"\<close> gives the defaults below; the line has
  no \<open>catchup-source\<close>. The claim asks for the header's value in the channel; the channel
  keeps the empty string, since line 332 sets the field before lines 334-335 take the
  header's value into the local variable.
\<close>

theorem header_catchup_source_not_taken:
  \<open>map_option (\<lambda>(g, st). GetCatchupSource (p_channel st))
     (ParseIntoChannel example_externals example_settings
        \<lparr>m_catchup = [], m_catchupDays = [], m_catchupSource = ''http://h/catchup/{utc}''\<rparr>
        ''#EXTINF:-1 tvg-id="c1",One'' 0 0 False example_parse_state) = Some []\<close>
  by code_simp

section \<open>The playlist loader\<close>

lemma Log_fields:
  "m_m3uLocation (Log level msg l) = m_m3uLocation l"
  "m_m3uHeaderStrings (Log level msg l) = m_m3uHeaderStrings l"
  "m_channels (Log level msg l) = m_channels l"
  "m_media (Log level msg l) = m_media l"
  "settings (Log level msg l) = settings l"
  "logged (Log level msg l) = logged l @ [(level, msg)]"
  by (simp_all add: Log_def)

text \<open>
  The \<open>#EXTM3U\<close> line touches neither store: it sets the defaults, and the address of the
  guide in the settings.
\<close>

lemma read_m3u_header_result:
  "\<exists>s'. read_m3u_header ext line s = Some s' \<and>
     m_channels (this s') = m_channels (this s) \<and>
     m_media (this s') = m_media (this s) \<and>
     logged (this s') = logged (this s) \<and>
     TvgUrl (settings (this s')) =
       (if marker_value_spec line TVG_URL_MARKER \<noteq> [] then marker_value_spec line TVG_URL_MARKER
        else marker_value_spec line TVG_URL_OTHER_MARKER)"
  unfolding read_m3u_header_def
  by (simp add: ReadMarkerValue_Some if_Some_Some Let_def)

lemma load_line_header:
  assumes start: "StartsWith (without_bom (trim_line raw)) M3U_START_MARKER"
    and first: "isFirstLine s"
  shows "load_line ext raw s =
           read_m3u_header ext (without_bom (trim_line raw))
             (s\<lparr>this := Log LEVEL_DEBUG M3U_Line_Read (this s), isFirstLine := False\<rparr>)"
proof -
  from start have "without_bom (trim_line raw) \<noteq> []"
    by (auto simp: StartsWith_def M3U_START_MARKER_def)
  then have "trim_line raw \<noteq> []" by (auto simp: without_bom_def split: if_splits)
  with start first show ?thesis
    by (simp add: load_line_def Let_def)
qed

text \<open>A line that is empty after trimming is logged and skipped.\<close>

lemma load_line_blank:
  "trim_line raw = [] \<Longrightarrow>
     load_line ext raw s = Some (s\<lparr>this := Log LEVEL_DEBUG M3U_Line_Read (this s)\<rparr>)"
  by (simp add: load_line_def Let_def)

lemma load_lines_blank:
  assumes "\<forall>raw \<in> set raws. trim_line raw = []"
  shows "\<exists>s'. load_lines ext raws s = Some s' \<and>
           isFirstLine s' = isFirstLine s \<and>
           m_channels (this s') = m_channels (this s) \<and>
           m_media (this s') = m_media (this s) \<and>
           settings (this s') = settings (this s) \<and>
           set (logged (this s)) \<subseteq> set (logged (this s'))"
  using assms
proof (induction raws arbitrary: s)
  case Nil
  then show ?case by simp
next
  case (Cons raw raws)
  let ?s = "s\<lparr>this := Log LEVEL_DEBUG M3U_Line_Read (this s)\<rparr>"
  from Cons.prems have "trim_line raw = []" and rest: "\<forall>raw \<in> set raws. trim_line raw = []"
    by simp_all
  then have step: "load_lines ext (raw # raws) s = load_lines ext raws ?s"
    by (simp add: load_line_blank)
  from Cons.IH [OF rest, of ?s] show ?case
    unfolding step by (auto simp: Log_fields)
qed

lemma load_lines_append:
  "load_lines ext (xs @ ys) s = load_lines ext xs s \<bind> load_lines ext ys"
proof (induction xs arbitrary: s)
  case Nil
  then show ?case by simp
next
  case (Cons x xs)
  then show ?case by (cases "load_line ext x s") simp_all
qed

text \<open>
  Claim C9. When the playlist path is configured, the file cache returns the content, and
  the only line of the content that is not blank (trimmed, without the byte order mark)
  starts with \<open>#EXTM3U\<close>, then \<open>LoadPlayList\<close> returns true and leaves the channel store and
  the media store as they were, with zero entries when they were empty (as after
  \<open>ReloadPlayList\<close> has cleared them); the settings hold the address of the guide read
  from the header (\<open>x-tvg-url\<close>, else \<open>url-tvg\<close>); and the empty result is logged as an
  error, which is not a failure.
\<close>

theorem header_only_playlist_loads:
  assumes "m_m3uLocation this0 \<noteq> []"
    and "GetCachedFileContents ext (m_m3uLocation this0)
           (if M3URefreshMode (settings this0) \<noteq> REFRESH_DISABLED then False
            else UseM3UCache (settings this0)) = Some content"
    and "getlines CHR 0x0A content = before @ [raw] @ after"
    and blank: "\<forall>l \<in> set before \<union> set after. trim_line l = []"
    and header: "header = without_bom (trim_line raw)"
    and start: "StartsWith header M3U_START_MARKER"
    and empty: "m_channels this0 = []" "m_media this0 = []"
  shows "\<exists>this1. LoadPlayList ext this0 = Some (True, this1) \<and>
           m_channels this1 = [] \<and> m_media this1 = [] \<and>
           GetChannelsAmount this1 = 0 \<and> GetNumMedia this1 = 0 \<and>
           TvgUrl (settings this1) =
             (if marker_value_spec header TVG_URL_MARKER \<noteq> [] then marker_value_spec header TVG_URL_MARKER
              else marker_value_spec header TVG_URL_OTHER_MARKER) \<and>
           (LEVEL_ERROR, Unable_To_Load_Channels_Or_Media) \<in> set (logged this1)"
proof -
  let ?l0 = "Log LEVEL_DEBUG Playlist_Load_Start this0"
  let ?s0 = "\<lparr>this = ?l0, isFirstLine = True, isRealTime = True, isMediaEntry = False,
              epgTimeShift = 0, catchupCorrectionSecs = CatchupCorrectionSecs (settings ?l0),
              currentChannelGroupIdList = [], channelHadGroups = False, xeevCatchup = False,
              tmpChannel = DefaultChannel ext, tmpMediaEntry = DefaultMediaEntry ext\<rparr>"
  from blank have b1: "\<forall>l \<in> set before. trim_line l = []" and b2: "\<forall>l \<in> set after. trim_line l = []"
    by simp_all
  from load_lines_blank [OF b1, of ext ?s0]
  obtain s1 where l1: "load_lines ext before ?s0 = Some s1"
    and first: "isFirstLine s1"
    and ch1: "m_channels (this s1) = m_channels this0"
    and me1: "m_media (this s1) = m_media this0"
    by (auto simp: Log_fields)
  let ?s2 = "s1\<lparr>this := Log LEVEL_DEBUG M3U_Line_Read (this s1), isFirstLine := False\<rparr>"
  from read_m3u_header_result [of ext header ?s2]
  obtain s3 where hdr: "read_m3u_header ext header ?s2 = Some s3"
    and ch3: "m_channels (this s3) = m_channels (this ?s2)"
    and me3: "m_media (this s3) = m_media (this ?s2)"
    and url: "TvgUrl (settings (this s3)) =
       (if marker_value_spec header TVG_URL_MARKER \<noteq> [] then marker_value_spec header TVG_URL_MARKER
        else marker_value_spec header TVG_URL_OTHER_MARKER)"
    by blast
  from load_line_header [OF start [unfolded header] first, of ext] hdr
  have l2: "load_line ext raw s1 = Some s3" by (simp add: header)
  from load_lines_blank [OF b2, of ext s3]
  obtain s4 where l3: "load_lines ext after s3 = Some s4"
    and ch4: "m_channels (this s4) = m_channels (this s3)"
    and me4: "m_media (this s4) = m_media (this s3)"
    and set4: "settings (this s4) = settings (this s3)"
    by blast
  from l1 l2 l3 have lines: "load_lines ext (before @ [raw] @ after) ?s0 = Some s4"
    by (simp add: load_lines_append)
  from ch4 ch3 ch1 empty(1) have ch0: "m_channels (this s4) = []" by (simp add: Log_fields)
  from me4 me3 me1 empty(2) have me0: "m_media (this s4) = []" by (simp add: Log_fields)
  let ?l1 = "Log LEVEL_INFO Loaded_Media (Log LEVEL_INFO Loaded_Providers
      (Log LEVEL_INFO Loaded_Channel_Groups (Log LEVEL_INFO Loaded_Channels
        (Log LEVEL_ERROR Unable_To_Load_Channels_Or_Media (Log LEVEL_INFO Playlist_Loaded (this s4))))))"
  define flag where "flag = (if M3URefreshMode (settings this0) \<noteq> REFRESH_DISABLED then False
                             else UseM3UCache (settings this0))"
  from assms(2) have cached: "GetCachedFileContents ext (m_m3uLocation this0) flag = Some content"
    by (simp add: flag_def)
  have "LoadPlayList ext this0 = Some (True, ?l1)"
    unfolding LoadPlayList_def Let_def Log_fields flag_def [symmetric]
    using assms(1) cached assms(3) lines ch0 me0
    by (simp add: Log_fields GetChannelsAmount_def GetNumMedia_def del: load_lines.simps)
  moreover have "m_channels ?l1 = []" "m_media ?l1 = []"
    using ch0 me0 by (simp_all add: Log_fields)
  moreover have "GetChannelsAmount ?l1 = 0" "GetNumMedia ?l1 = 0"
    using ch0 me0 by (simp_all add: Log_fields GetChannelsAmount_def GetNumMedia_def)
  moreover have "TvgUrl (settings ?l1) =
       (if marker_value_spec header TVG_URL_MARKER \<noteq> [] then marker_value_spec header TVG_URL_MARKER
        else marker_value_spec header TVG_URL_OTHER_MARKER)"
    using url set4 by (simp add: Log_fields)
  moreover have "(LEVEL_ERROR, Unable_To_Load_Channels_Or_Media) \<in> set (logged ?l1)"
    by (simp add: Log_fields)
  ultimately show ?thesis by blast
qed

theorem header_only_playlist_loads_witness:
  "m_m3uLocation example_loader \<noteq> [] \<and>
   GetCachedFileContents (with_playlist header_only_playlist example_externals)
     (m_m3uLocation example_loader)
     (if M3URefreshMode (settings example_loader) \<noteq> REFRESH_DISABLED then False
      else UseM3UCache (settings example_loader)) = Some header_only_playlist \<and>
   getlines CHR 0x0A header_only_playlist =
     [] @ [''#EXTM3U url-tvg=\"http://e/x.xml\" catchup=\"shift\"'' @ [CHR 0x0D]] @ [[CHR 0x0D]] \<and>
   trim_line [CHR 0x0D] = [] \<and>
   without_bom (trim_line (''#EXTM3U url-tvg=\"http://e/x.xml\" catchup=\"shift\"'' @ [CHR 0x0D]))
     = ''#EXTM3U url-tvg=\"http://e/x.xml\" catchup=\"shift\"'' \<and>
   StartsWith ''#EXTM3U url-tvg=\"http://e/x.xml\" catchup=\"shift\"'' M3U_START_MARKER \<and>
   m_channels example_loader = [] \<and> m_media example_loader = [] \<and>
   (\<exists>this1. LoadPlayList (with_playlist header_only_playlist example_externals) example_loader
        = Some (True, this1) \<and>
      GetChannelsAmount this1 = 0 \<and> GetNumMedia this1 = 0 \<and>
      TvgUrl (settings this1) = ''http://e/x.xml'' \<and>
      (LEVEL_ERROR, Unable_To_Load_Channels_Or_Media) \<in> set (logged this1))"
proof -
  let ?hdr = "''#EXTM3U url-tvg=\"http://e/x.xml\" catchup=\"shift\"''"
  let ?raw = "?hdr @ [CHR 0x0D]"
  have a: "m_m3uLocation example_loader \<noteq> []" by (simp add: example_loader_def)
  have b: "GetCachedFileContents (with_playlist header_only_playlist example_externals)
     (m_m3uLocation example_loader)
     (if M3URefreshMode (settings example_loader) \<noteq> REFRESH_DISABLED then False
      else UseM3UCache (settings example_loader)) = Some header_only_playlist"
    by (simp add: with_playlist_def)
  have c: "getlines CHR 0x0A header_only_playlist = [] @ [?raw] @ [[CHR 0x0D]]" by code_simp
  have t: "trim_line [CHR 0x0D] = []" by code_simp
  then have d: "\<forall>l \<in> set [] \<union> set [[CHR 0x0D]]. trim_line l = []" by simp
  have e: "without_bom (trim_line ?raw) = ?hdr" by code_simp
  have f: "StartsWith ?hdr M3U_START_MARKER" by code_simp
  have g: "m_channels example_loader = []" "m_media example_loader = []"
    by (simp_all add: example_loader_def)
  have u: "(if marker_value_spec ?hdr TVG_URL_MARKER \<noteq> [] then marker_value_spec ?hdr TVG_URL_MARKER
            else marker_value_spec ?hdr TVG_URL_OTHER_MARKER) = ''http://e/x.xml''"
    by code_simp
  from header_only_playlist_loads [OF a b c d e [symmetric] f g]
  have "\<exists>this1. LoadPlayList (with_playlist header_only_playlist example_externals) example_loader
        = Some (True, this1) \<and>
      GetChannelsAmount this1 = 0 \<and> GetNumMedia this1 = 0 \<and>
      TvgUrl (settings this1) = ''http://e/x.xml'' \<and>
      (LEVEL_ERROR, Unable_To_Load_Channels_Or_Media) \<in> set (logged this1)"
    unfolding u by blast
  with a b c t e f g show ?thesis by blast
qed

section \<open>The playability of a programme\<close>

text \<open>
  Claim C3. \<open>IsEPGTagPlayable\<close> reports a programme playable (it returns
  \<open>PVR_ERROR_NO_ERROR\<close> with the flag set) exactly when catchup is enabled, the channel of
  the programme exists and supports catchup, and either the catchup days of the channel
  are \<open>IGNORE_CATCHUP_DAYS\<close> and the guide entry at the start time of the programme has a
  catchup identifier that is not empty, or else the programme starts before now, not
  earlier than the catchup days times 86400 seconds before now, and ends before now when
  only finished programmes are to be played.
\<close>

theorem IsEPGTagPlayable_playable_iff:
  "IsEPGTagPlayable ext d now tag b = (PVR_ERROR_NO_ERROR, True) \<longleftrightarrow>
     IsCatchupEnabled (pvr_settings d) \<and>
     (\<exists>channel. GetChannel d (GetUniqueChannelId tag) (DefaultChannel ext) = (True, channel) \<and>
        IsCatchupSupported d channel \<and>
        (if GetCatchupDays channel = IGNORE_CATCHUP_DAYS ext
         then \<exists>e. GetEPGEntry d channel (GetStartTime tag) = Some e \<and> GetCatchupId e \<noteq> []
         else GetStartTime tag < now \<and>
              now - GetCatchupDays channel * 86400 \<le> GetStartTime tag \<and>
              (CatchupOnlyOnFinishedProgrammes (pvr_settings d) \<longrightarrow> GetEndTime tag < now)))"
proof (cases "IsCatchupEnabled (pvr_settings d)")
  case False
  then show ?thesis by (simp add: IsEPGTagPlayable_def)
next
  case True
  obtain found channel where gc: "GetChannel d (GetUniqueChannelId tag) (DefaultChannel ext) = (found, channel)"
    by (cases "GetChannel d (GetUniqueChannelId tag) (DefaultChannel ext)")
  show ?thesis
  proof (cases "GetCatchupDays channel = IGNORE_CATCHUP_DAYS ext")
    case ignore: True
    with True gc show ?thesis
      by (cases "GetEPGEntry d channel (GetStartTime tag)")
         (auto simp: IsEPGTagPlayable_def IgnoreCatchupDays_def)
  next
    case window: False
    with True gc show ?thesis
      by (auto simp: IsEPGTagPlayable_def IgnoreCatchupDays_def GetCatchupDaysInSeconds_def)
  qed
qed

theorem IsEPGTagPlayable_playable_iff_witness:
  "IsEPGTagPlayable example_externals example_pvr_data 1000000
     \<lparr>GetUniqueChannelId = 7, GetStartTime = 1000000 - 86400, GetEndTime = 1000000 - 82800\<rparr> False
     = (PVR_ERROR_NO_ERROR, True) \<and>
   IsEPGTagPlayable example_externals example_pvr_data 1000000
     \<lparr>GetUniqueChannelId = 7, GetStartTime = 1000000 - 3 * 86400, GetEndTime = 1000000 - 82800\<rparr> False
     \<noteq> (PVR_ERROR_NO_ERROR, True)"
  unfolding IsEPGTagPlayable_playable_iff
  by (simp add: example_pvr_data_def example_externals_def example_settings_def example_channel_def)

text \<open>
  Claim C10. When the catchup setting is off, \<open>IsEPGTagPlayable\<close> returns
  \<open>PVR_ERROR_NOT_IMPLEMENTED\<close> for every programme and leaves the flag of the caller as
  it was; the channel store, the guide and the clock have no part in the result.
\<close>

theorem catchup_disabled_not_implemented:
  assumes "\<not> IsCatchupEnabled (pvr_settings d)"
  shows "IsEPGTagPlayable ext d now tag b = (PVR_ERROR_NOT_IMPLEMENTED, b) \<and>
         (\<forall>lookup supported guide clock.
            IsEPGTagPlayable ext
              (d\<lparr>GetChannel := lookup, IsCatchupSupported := supported, GetEPGEntry := guide\<rparr>)
              clock tag b = (PVR_ERROR_NOT_IMPLEMENTED, b))"
  using assms by (simp add: IsEPGTagPlayable_def)

theorem catchup_disabled_not_implemented_witness:
  "\<not> IsCatchupEnabled (pvr_settings (example_pvr_data\<lparr>pvr_settings := example_settings\<lparr>IsCatchupEnabled := False\<rparr>\<rparr>)) \<and>
   IsEPGTagPlayable example_externals
     (example_pvr_data\<lparr>pvr_settings := example_settings\<lparr>IsCatchupEnabled := False\<rparr>\<rparr>) 1000000
     \<lparr>GetUniqueChannelId = 7, GetStartTime = 1000000 - 86400, GetEndTime = 1000000 - 82800\<rparr> True
     = (PVR_ERROR_NOT_IMPLEMENTED, True) \<and>
   IsEPGTagPlayable example_externals
     (example_pvr_data\<lparr>pvr_settings := example_settings\<lparr>IsCatchupEnabled := False\<rparr>\<rparr>) 1000000
     \<lparr>GetUniqueChannelId = 7, GetStartTime = 1000000 - 86400, GetEndTime = 1000000 - 82800\<rparr> False
     = (PVR_ERROR_NOT_IMPLEMENTED, False)"
proof -
  have off: "\<not> IsCatchupEnabled (pvr_settings
      (example_pvr_data\<lparr>pvr_settings := example_settings\<lparr>IsCatchupEnabled := False\<rparr>\<rparr>))"
    by simp
  from catchup_disabled_not_implemented [OF off] off show ?thesis by blast
qed

end
